theory Spec2Isabelle
  imports Main "HOL-Library.Word"
begin

section \<open>JavaScript strings\<close>

text \<open>
  A JavaScript string is a sequence of UTF-16 code units: \<open>length\<close>, \<open>slice\<close>,
  \<open>startsWith\<close> and a regular expression without the \<open>u\<close> flag all work on code
  units. A literal of the source is written \<open>js ''...''\<close>.
\<close>

type_synonym code_unit = "16 word"
type_synonym jsstring = "code_unit list"

definition js :: "string \<Rightarrow> jsstring" where
  "js s = map (\<lambda>c. of_nat (of_char c)) s"

text \<open>A string is truthy when it is not empty; \<open>undefined\<close> (\<open>None\<close>) is falsy.\<close>

fun truthy :: "jsstring option \<Rightarrow> bool" where
  "truthy None = False"
| "truthy (Some s) = (s \<noteq> [])"

text \<open>A template literal renders \<open>undefined\<close> as the word itself.\<close>

fun template_value :: "jsstring option \<Rightarrow> jsstring" where
  "template_value None = js ''undefined''"
| "template_value (Some s) = s"

definition startsWith :: "jsstring \<Rightarrow> jsstring \<Rightarrow> bool" where
  "startsWith s p \<longleftrightarrow> take (length p) s = p"

text \<open>\<open>s.replace(p, r)\<close> with a string pattern replaces the first occurrence of \<open>p\<close>.\<close>

fun replace_first :: "jsstring \<Rightarrow> jsstring \<Rightarrow> jsstring \<Rightarrow> jsstring" where
  "replace_first [] p r = (if p = [] then r else [])"
| "replace_first (c # cs) p r =
     (if startsWith (c # cs) p then r @ drop (length p) (c # cs)
      else c # replace_first cs p r)"

text \<open>
  \<open>s.slice(start, fin)\<close>: a negative index counts from the end, both indices are
  clamped to the string, and a missing \<open>fin\<close> is the length.
\<close>

definition slice :: "jsstring \<Rightarrow> int \<Rightarrow> int option \<Rightarrow> jsstring" where
  "slice s start fin =
     (let len = int (length s);
          from = (if start < 0 then max (len + start) 0 else min start len);
          to = (case fin of
                  None \<Rightarrow> len
                | Some e \<Rightarrow> if e < 0 then max (len + e) 0 else min e len)
      in take (nat (to - from)) (drop (nat from) s))"

text \<open>\<open>s.split(sep)\<close> for a one-character separator; the empty string gives \<open>['''']\<close>.\<close>

fun split_on :: "code_unit \<Rightarrow> jsstring \<Rightarrow> jsstring list" where
  "split_on sep [] = [[]]"
| "split_on sep (c # cs) =
     (if c = sep then [] # split_on sep cs
      else (case split_on sep cs of
              [] \<Rightarrow> [[c]]
            | x # xs \<Rightarrow> (c # x) # xs))"

text \<open>\<open>parts.join(sep)\<close>.\<close>

fun join :: "jsstring \<Rightarrow> jsstring list \<Rightarrow> jsstring" where
  "join sep [] = []"
| "join sep [x] = x"
| "join sep (x # y # ys) = x @ sep @ join sep (y # ys)"

text \<open>A non-negative integer in a template literal: its decimal digits.\<close>

definition digit :: "nat \<Rightarrow> code_unit" where
  "digit d = of_nat (48 + d)"

fun show_nat :: "nat \<Rightarrow> jsstring" where
  "show_nat n = (if n < 10 then [digit n] else show_nat (n div 10) @ [digit (n mod 10)])"

declare show_nat.simps [simp del]

text \<open>\<open>s.includes(x)\<close>: \<open>x\<close> occurs in \<open>s\<close> as a contiguous run.\<close>

fun js_includes :: "jsstring \<Rightarrow> jsstring \<Rightarrow> bool" where
  "js_includes [] x = (x = [])"
| "js_includes (c # cs) x = (startsWith (c # cs) x \<or> js_includes cs x)"

section \<open>Tool name sanitizer\<close>

text \<open>The character class \<open>[a-zA-Z0-9_.-]\<close>.\<close>

definition valid_name_char :: "code_unit \<Rightarrow> bool" where
  "valid_name_char c \<longleftrightarrow>
     (0x61 \<le> c \<and> c \<le> 0x7A) \<or> (0x41 \<le> c \<and> c \<le> 0x5A) \<or> (0x30 \<le> c \<and> c \<le> 0x39)
     \<or> c = 0x5F \<or> c = 0x2E \<or> c = 0x2D"

text \<open>\<open>name.replace(/[^a-zA-Z0-9_.-]/g, '_')\<close>.\<close>

definition replace_invalid :: "jsstring \<Rightarrow> jsstring" where
  "replace_invalid name = map (\<lambda>c. if valid_name_char c then c else 0x5F) name"

definition generateValidName :: "jsstring \<Rightarrow> jsstring" where
  "generateValidName name =
     (let validToolname = replace_invalid name
      in if length validToolname > 63
         then slice validToolname 0 (Some 28) @ js ''___'' @ slice validToolname (- 32) None
         else validToolname)"

text \<open>A whole-string match of \<open>^[A-Za-z0-9_.-]+$\<close>: at least one character, all in the class.\<close>

definition matches_valid_name :: "jsstring \<Rightarrow> bool" where
  "matches_valid_name s \<longleftrightarrow> s \<noteq> [] \<and> list_all valid_name_char s"

section \<open>Data model\<close>

text \<open>
  \<open>ToolParams\<close> is \<open>Record<string, unknown>\<close> and the parameter schema is \<open>unknown\<close>:
  JSON values, which the code passes on and serializes without looking inside.
\<close>

datatype json =
    JNull
  | JBool bool
  | JNumber int
  | JString jsstring
  | JArray "json list"
  | JObject "(jsstring \<times> json) list"

type_synonym ToolParams = "(jsstring \<times> json) list"

subsection \<open>MCP content blocks\<close>

datatype media_type = Image | Audio

record McpMediaBlock =
  media_type :: media_type
  media_mimeType :: jsstring
  media_filePath :: "jsstring option"
  media_uri :: "jsstring option"
  media_data :: "jsstring option"

record McpResource =
  resource_text :: "jsstring option"
  resource_blob :: "jsstring option"
  resource_mimeType :: "jsstring option"

record McpResourceLink =
  link_uri :: jsstring
  link_title :: "jsstring option"
  link_name :: "jsstring option"

text \<open>
  The union \<open>McpContentBlock\<close>, discriminated by its \<open>type\<close> field. \<open>UnknownBlock\<close>
  carries any other \<open>type\<close> tag: the \<open>default\<close> branches of the code handle it.
\<close>

datatype McpContentBlock =
    TextBlock jsstring
  | MediaBlock McpMediaBlock
  | ResourceBlock McpResource
  | ResourceLinkBlock McpResourceLink
  | UnknownBlock jsstring

subsection \<open>The raw response of \<open>callTool\<close>\<close>

datatype isError_value = IsErrorBool bool | IsErrorString jsstring

record McpError =
  isError :: "isError_value option"

text \<open>\<open>response_content\<close> is \<open>None\<close> when \<open>response['content']\<close> is not an array.\<close>

record McpResponse =
  response_content :: "McpContentBlock list option"
  response_error :: "McpError option"

record FunctionResponse =
  fr_name :: "jsstring option"
  fr_response :: "McpResponse option"

record RawPart =
  functionResponse :: "FunctionResponse option"

record FunctionCall =
  call_name :: jsstring
  call_args :: ToolParams

subsection \<open>Results\<close>

text \<open>A \<open>Part\<close> handed to the model: text, a file reference or inline data.\<close>

datatype Part =
    TextPart jsstring
  | FileDataPart jsstring jsstring
  | InlineDataPart jsstring jsstring

record ImageEntry =
  image_filePath :: jsstring
  image_mimeType :: jsstring
  image_alt :: "jsstring option"

datatype ToolResultDisplay =
    DisplayString jsstring
  | DisplayImages "ImageEntry list"

datatype llm_content = LlmString jsstring | LlmParts "Part list"

text \<open>
  \<open>ToolErrorType\<close> is declared in \<open>tool-error.js\<close>, which is not among the sources;
  the code uses its member \<open>MCP_TOOL_ERROR\<close> only.
\<close>

datatype ToolErrorType = MCP_TOOL_ERROR | OTHER_TOOL_ERROR jsstring

record ToolError =
  error_message :: jsstring
  error_type :: ToolErrorType

record ToolResult =
  llmContent :: llm_content
  returnDisplay :: ToolResultDisplay
  result_error :: "ToolError option"

text \<open>A JavaScript \<open>Error\<close> object, as a rejected promise carries it.\<close>

record JsError =
  err_name :: jsstring
  err_message :: jsstring

section \<open>The environment\<close>

text \<open>
  Library functions the code calls and that are not part of it: \<open>os.tmpdir()\<close>,
  \<open>path.join\<close>, \<open>JSON.stringify(_, null, 2)\<close> and \<open>safeJsonStringify\<close> (at the two
  types it is used at).
\<close>

record env =
  tmpdir :: jsstring
  path_join :: "jsstring \<Rightarrow> jsstring \<Rightarrow> jsstring"
  JSON_stringify :: "RawPart list \<Rightarrow> jsstring"
  safeJsonStringify_call :: "FunctionCall \<Rightarrow> jsstring"
  safeJsonStringify_parts :: "RawPart list \<Rightarrow> jsstring"

text \<open>
  What the code reads and changes outside itself:
  \<^item> \<open>existing\<close>: the paths for which \<open>fs.existsSync\<close> returns true (it reports every
    failure as false and never throws);
  \<^item> \<open>unwritable\<close>: the paths at which \<open>fs.writeFileSync\<close> throws;
  \<^item> \<open>written\<close>: the writes done, oldest first, as path and base64 text (the bytes
    written are \<open>Buffer.from(data, 'base64')\<close>);
  \<^item> \<open>clock\<close> and \<open>clock_reads\<close>: the \<open>n\<close>-th call of \<open>Date.now()\<close> returns \<open>clock n\<close>;
  \<^item> \<open>console\<close>: the messages of \<open>console.error\<close>, oldest first;
  \<^item> \<open>calls\<close>: the argument of every \<open>callTool\<close> made on the external callable.
\<close>

record world =
  existing :: "jsstring set"
  unwritable :: "jsstring set"
  written :: "(jsstring \<times> jsstring) list"
  clock :: "nat \<Rightarrow> nat"
  clock_reads :: nat
  console :: "jsstring list"
  calls :: "FunctionCall list list"

definition console_error :: "jsstring \<Rightarrow> world \<Rightarrow> world" where
  "console_error msg w = w\<lparr>console := console w @ [msg]\<rparr>"

definition Date_now :: "world \<Rightarrow> nat \<times> world" where
  "Date_now w = (clock w (clock_reads w), w\<lparr>clock_reads := Suc (clock_reads w)\<rparr>)"

text \<open>\<open>fs.writeFileSync\<close>: \<open>None\<close> when it throws, else the world with the file in it.\<close>

definition writeFileSync :: "jsstring \<Rightarrow> jsstring \<Rightarrow> world \<Rightarrow> world option" where
  "writeFileSync filepath payload w =
     (if filepath \<in> unwritable w then None
      else Some (w\<lparr>existing := insert filepath (existing w),
                    written := written w @ [(filepath, payload)]\<rparr>))"

section \<open>Content block normalizer\<close>

definition newline :: jsstring where
  "newline = [0x0A]"

text \<open>\<open>a || b\<close> inside a template literal, for optional strings.\<close>

definition or_else :: "jsstring option \<Rightarrow> jsstring option \<Rightarrow> jsstring" where
  "or_else a b = (if truthy a then template_value a else template_value b)"

subsection \<open>To model parts\<close>

definition transformTextBlock :: "jsstring \<Rightarrow> Part" where
  "transformTextBlock block_text = TextPart block_text"

fun media_type_name :: "media_type \<Rightarrow> jsstring" where
  "media_type_name Image = js ''image''"
| "media_type_name Audio = js ''audio''"

definition transformImageAudioBlock :: "McpMediaBlock \<Rightarrow> jsstring \<Rightarrow> Part list" where
  "transformImageAudioBlock block toolName =
     (let fileUri =
            (if truthy (media_filePath block)
                \<and> startsWith (template_value (media_filePath block)) (js ''file://'')
             then media_filePath block
             else if truthy (media_filePath block)
               then Some (js ''file://'' @ template_value (media_filePath block))
             else media_uri block);
          hasInlineData = truthy (media_data block)
      in [TextPart (js ''[Tool '' @ [0x27] @ toolName @ [0x27] @ js '' provided the following ''
                    @ media_type_name (media_type block) @ js '' data with mime-type: ''
                    @ media_mimeType block @ js '']''),
          (if truthy fileUri then FileDataPart (template_value fileUri) (media_mimeType block)
           else if hasInlineData
             then InlineDataPart (media_mimeType block) (template_value (media_data block))
           else TextPart (js ''[No image payload provided]''))])"

text \<open>The result \<open>Part | Part[] | null\<close> is a list: \<open>flatMap\<close> and the filter flatten it.\<close>

definition transformResourceBlock :: "McpResource \<Rightarrow> jsstring \<Rightarrow> Part list" where
  "transformResourceBlock resource toolName =
     (if truthy (resource_text resource) then [TextPart (template_value (resource_text resource))]
      else if truthy (resource_blob resource) then
        (let mimeType = (if truthy (resource_mimeType resource)
                         then template_value (resource_mimeType resource)
                         else js ''application/octet-stream'')
         in [TextPart (js ''[Tool '' @ [0x27] @ toolName @ [0x27]
                       @ js '' provided the following embedded resource with mime-type: ''
                       @ mimeType @ js '']''),
             InlineDataPart mimeType (template_value (resource_blob resource))])
      else [])"

definition transformResourceLinkBlock :: "McpResourceLink \<Rightarrow> Part" where
  "transformResourceLinkBlock block =
     TextPart (js ''Resource Link: '' @ or_else (link_title block) (link_name block)
               @ js '' at '' @ link_uri block)"

text \<open>\<open>sdkResponse?.[0]?.functionResponse\<close>.\<close>

definition first_functionResponse :: "RawPart list \<Rightarrow> FunctionResponse option" where
  "first_functionResponse sdkResponse =
     (case sdkResponse of [] \<Rightarrow> None | p # _ \<Rightarrow> functionResponse p)"

text \<open>\<open>funcResponse?.response?.['content']\<close>, \<open>None\<close> unless it is an array.\<close>

definition mcp_content :: "RawPart list \<Rightarrow> McpContentBlock list option" where
  "mcp_content sdkResponse =
     (case first_functionResponse sdkResponse of
        None \<Rightarrow> None
      | Some fr \<Rightarrow> (case fr_response fr of None \<Rightarrow> None | Some r \<Rightarrow> response_content r))"

fun transform_block :: "jsstring \<Rightarrow> McpContentBlock \<Rightarrow> Part list" where
  "transform_block toolName (TextBlock t) = [transformTextBlock t]"
| "transform_block toolName (MediaBlock m) = transformImageAudioBlock m toolName"
| "transform_block toolName (ResourceBlock r) = transformResourceBlock r toolName"
| "transform_block toolName (ResourceLinkBlock l) = [transformResourceLinkBlock l]"
| "transform_block toolName (UnknownBlock tag) = []"

definition transformMcpContentToParts :: "RawPart list \<Rightarrow> Part list" where
  "transformMcpContentToParts sdkResponse =
     (let toolName =
            (case first_functionResponse sdkResponse of
               None \<Rightarrow> js ''unknown tool''
             | Some fr \<Rightarrow> if truthy (fr_name fr) then template_value (fr_name fr)
                          else js ''unknown tool'')
      in case mcp_content sdkResponse of
           None \<Rightarrow> [TextPart (js ''[Error: Could not parse tool response]'')]
         | Some mcpContent \<Rightarrow> concat (map (transform_block toolName) mcpContent))"

subsection \<open>To the display payload\<close>

text \<open>
  The filter that selects \<open>imageBlocks\<close>. Every \<open>McpMediaBlock\<close> has a \<open>mimeType\<close>, so
  \<open>'mimeType' in block\<close> holds; \<open>typeof x === 'string'\<close> is \<open>x \<noteq> None\<close>.
\<close>

fun imageBlocks :: "McpContentBlock list \<Rightarrow> McpMediaBlock list" where
  "imageBlocks [] = []"
| "imageBlocks (MediaBlock m # bs) =
     (if media_type m = Image \<and>
         (media_filePath m \<noteq> None \<or> media_uri m \<noteq> None \<or> media_data m \<noteq> None)
      then m # imageBlocks bs else imageBlocks bs)"
| "imageBlocks (b # bs) = imageBlocks bs"

fun textParts :: "McpContentBlock list \<Rightarrow> jsstring list" where
  "textParts [] = []"
| "textParts (TextBlock t # bs) = t # textParts bs"
| "textParts (b # bs) = textParts bs"

definition alt_text :: "jsstring list \<Rightarrow> jsstring option" where
  "alt_text parts = (if length parts > 0 then Some (join newline parts) else None)"

text \<open>
  The path tried first: \<open>block.filePath\<close> when it is a non-empty string, else
  \<open>block.uri\<close> when it is one, without its \<open>file://\<close> prefix.
\<close>

definition strip_file_scheme :: "jsstring \<Rightarrow> jsstring" where
  "strip_file_scheme u =
     (if startsWith u (js ''file://'') then replace_first u (js ''file://'') [] else u)"

definition candidate_path :: "McpMediaBlock \<Rightarrow> jsstring option" where
  "candidate_path block =
     (if truthy (media_filePath block) then media_filePath block
      else if truthy (media_uri block) then map_option strip_file_scheme (media_uri block)
      else None)"

definition mime_extension :: "jsstring \<Rightarrow> jsstring" where
  "mime_extension mimeType =
     (case split_on 0x2F mimeType of
        _ # e # _ \<Rightarrow> if e \<noteq> [] then e else js ''png''
      | _ \<Rightarrow> js ''png'')"

definition temp_filename :: "nat \<Rightarrow> nat \<Rightarrow> jsstring \<Rightarrow> jsstring" where
  "temp_filename now index extension =
     js ''gemini-cli-image-mcp-'' @ show_nat now @ js ''-'' @ show_nat index
     @ js ''.'' @ extension"

text \<open>The fallback: base64 data written to a new file in the temporary directory.\<close>

definition materialize ::
  "env \<Rightarrow> jsstring option \<Rightarrow> nat \<Rightarrow> McpMediaBlock \<Rightarrow> world \<Rightarrow> ImageEntry option \<times> world" where
  "materialize e alt index block w =
     (if truthy (media_data block) then
        (let extension = mime_extension (media_mimeType block);
             (now, w1) = Date_now w;
             filename = temp_filename now index extension;
             filepath = path_join e (tmpdir e) filename
         in case writeFileSync filepath (template_value (media_data block)) w1 of
              Some w2 \<Rightarrow>
                (Some \<lparr>image_filePath = filepath, image_mimeType = media_mimeType block,
                        image_alt = alt\<rparr>, w2)
            | None \<Rightarrow>
                (None, console_error (js ''Failed to write image temp file from MCP data'') w1))
      else (None, console_error (js ''Image block '' @ show_nat index
                                 @ js '' has no valid filePath, uri, or data field'') w))"

text \<open>The body of the \<open>map\<close> over \<open>imageBlocks\<close>, for one block and its index.\<close>

definition resolve_image ::
  "env \<Rightarrow> jsstring option \<Rightarrow> nat \<Rightarrow> McpMediaBlock \<Rightarrow> world \<Rightarrow> ImageEntry option \<times> world" where
  "resolve_image e alt index block w =
     (let filePath = candidate_path block
      in if truthy filePath then
           (if template_value filePath \<in> existing w
            then (Some \<lparr>image_filePath = template_value filePath,
                         image_mimeType = media_mimeType block, image_alt = alt\<rparr>, w)
            else materialize e alt index block
                   (console_error (js ''Image file path does not exist: ''
                                   @ template_value filePath @ js '', falling back to base64'') w))
         else materialize e alt index block w)"

fun resolve_images ::
  "env \<Rightarrow> jsstring option \<Rightarrow> nat \<Rightarrow> McpMediaBlock list \<Rightarrow> world
   \<Rightarrow> ImageEntry option list \<times> world" where
  "resolve_images e alt index [] w = ([], w)"
| "resolve_images e alt index (b # bs) w =
     (let (r, w1) = resolve_image e alt index b w;
          (rs, w2) = resolve_images e alt (Suc index) bs w1
      in (r # rs, w2))"

text \<open>\<open>.filter(entry => entry !== null)\<close>.\<close>

fun non_null :: "'a option list \<Rightarrow> 'a list" where
  "non_null [] = []"
| "non_null (None # xs) = non_null xs"
| "non_null (Some x # xs) = x # non_null xs"

fun display_part :: "McpContentBlock \<Rightarrow> jsstring" where
  "display_part (TextBlock t) = t"
| "display_part (MediaBlock m) =
     (case media_type m of
        Image \<Rightarrow> js ''[Image: '' @ media_mimeType m @ js '']''
      | Audio \<Rightarrow> js ''[Audio: '' @ media_mimeType m @ js '']'')"
| "display_part (ResourceLinkBlock l) =
     js ''[Link to '' @ or_else (link_title l) (link_name l) @ js '': '' @ link_uri l @ js '']''"
| "display_part (ResourceBlock r) =
     (if truthy (resource_text r) then template_value (resource_text r)
      else js ''[Embedded Resource: ''
           @ (if truthy (resource_mimeType r) then template_value (resource_mimeType r)
              else js ''unknown type'')
           @ js '']'')"
| "display_part (UnknownBlock tag) = js ''[Unknown content type: '' @ tag @ js '']''"

definition display_summary :: "McpContentBlock list \<Rightarrow> jsstring" where
  "display_summary mcpContent = join newline (map display_part mcpContent)"

definition getStringifiedResultForDisplay ::
  "env \<Rightarrow> RawPart list \<Rightarrow> world \<Rightarrow> ToolResultDisplay \<times> world" where
  "getStringifiedResultForDisplay e rawResponse w =
     (case mcp_content rawResponse of
        None \<Rightarrow>
          (DisplayString (js ''```json'' @ newline @ JSON_stringify e rawResponse
                          @ newline @ js ''```''), w)
      | Some mcpContent \<Rightarrow>
          (if length (imageBlocks mcpContent) > 0 then
             (let (entries, w1) =
                    resolve_images e (alt_text (textParts mcpContent)) 0 (imageBlocks mcpContent) w;
                  images = non_null entries
              in if length images > 0 then (DisplayImages images, w1)
                 else (DisplayString (display_summary mcpContent), w1))
           else (DisplayString (display_summary mcpContent), w)))"

section \<open>Trust and confirmation gate\<close>

record Config =
  isTrustedFolder :: bool

text \<open>
  A \<open>DiscoveredMCPToolInvocation\<close>. Its external callable is the world (\<open>calls\<close>
  records what is asked of it).
\<close>

record Invocation =
  inv_serverName :: jsstring
  inv_serverToolName :: jsstring
  inv_displayName :: jsstring
  inv_trust :: "bool option"
  inv_params :: ToolParams
  inv_cliConfig :: "Config option"

text \<open>
  Modelled from the spec: the enumeration \<open>ToolConfirmationOutcome\<close> is declared in
  \<open>tools.js\<close>, which is not among the sources. The spec names three resolutions;
  the code tells \<open>ProceedAlwaysServer\<close> and \<open>ProceedAlwaysTool\<close> from every other.
\<close>

datatype ToolConfirmationOutcome = ProceedOnce | ProceedAlwaysServer | ProceedAlwaysTool

record ToolMcpConfirmationDetails =
  conf_type :: jsstring
  conf_title :: jsstring
  conf_serverName :: jsstring
  conf_toolName :: jsstring
  conf_toolDisplayName :: jsstring

text \<open>The static \<open>allowlist\<close> of the class: process-wide, passed and returned.\<close>

type_synonym allowlist = "jsstring set"

definition serverAllowListKey :: "Invocation \<Rightarrow> jsstring" where
  "serverAllowListKey this = inv_serverName this"

definition toolAllowListKey :: "Invocation \<Rightarrow> jsstring" where
  "toolAllowListKey this = inv_serverName this @ js ''.'' @ inv_serverToolName this"

text \<open>\<open>None\<close> is the result \<open>false\<close>: no confirmation needed.\<close>

definition getConfirmationDetails ::
  "Invocation \<Rightarrow> allowlist \<Rightarrow> ToolMcpConfirmationDetails option" where
  "getConfirmationDetails this al =
     (if (case inv_cliConfig this of None \<Rightarrow> False | Some c \<Rightarrow> isTrustedFolder c)
         \<and> inv_trust this = Some True
      then None
      else if serverAllowListKey this \<in> al \<or> toolAllowListKey this \<in> al
      then None
      else Some \<lparr>conf_type = js ''mcp'',
                  conf_title = js ''Confirm MCP Tool Execution'',
                  conf_serverName = inv_serverName this,
                  conf_toolName = inv_serverToolName this,
                  conf_toolDisplayName = inv_displayName this\<rparr>)"

text \<open>The \<open>onConfirm\<close> callback of the details returned for the invocation \<open>this\<close>.\<close>

fun onConfirm :: "Invocation \<Rightarrow> ToolConfirmationOutcome \<Rightarrow> allowlist \<Rightarrow> allowlist" where
  "onConfirm this ProceedAlwaysServer al = insert (serverAllowListKey this) al"
| "onConfirm this ProceedAlwaysTool al = insert (toolAllowListKey this) al"
| "onConfirm this outcome al = al"

text \<open>
  A session: a sequence of invocations, each with the answer the user gives if
  asked. The callback exists, and runs, only when confirmation was asked for.
\<close>

fun session :: "allowlist \<Rightarrow> (Invocation \<times> ToolConfirmationOutcome) list \<Rightarrow> allowlist" where
  "session al [] = al"
| "session al ((this, outcome) # rest) =
     (case getConfirmationDetails this al of
        None \<Rightarrow> session al rest
      | Some details \<Rightarrow> session (onConfirm this outcome al) rest)"

section \<open>Invocation executor\<close>

definition isMCPToolError :: "RawPart list \<Rightarrow> bool" where
  "isMCPToolError rawResponseParts =
     (case first_functionResponse rawResponseParts of
        None \<Rightarrow> False
      | Some fr \<Rightarrow>
          (case fr_response fr of
             None \<Rightarrow> False
           | Some response \<Rightarrow>
               (case response_error response of
                  None \<Rightarrow> False
                | Some error \<Rightarrow>
                    isError error = Some (IsErrorBool True)
                    \<or> isError error = Some (IsErrorString (js ''true'')))))"

definition AbortError :: JsError where
  "AbortError = \<lparr>err_name = js ''AbortError'', err_message = js ''Tool call aborted''\<rparr>"

text \<open>
  What happens once \<open>callTool\<close> has been started: the abort event comes first, or
  the call resolves, or it rejects. The event loop decides; the model takes it
  as an input.
\<close>

datatype race = AbortFires | CallResolves "RawPart list" | CallRejects JsError

text \<open>
  The promise that races the call with the signal. \<open>aborted\<close> is \<open>signal.aborted\<close>
  on entry. The abort listener is removed on every path and leaves no trace.
\<close>

definition race_callTool ::
  "FunctionCall list \<Rightarrow> bool \<Rightarrow> race \<Rightarrow> world \<Rightarrow> (JsError + RawPart list) \<times> world" where
  "race_callTool functionCalls aborted r w =
     (if aborted then (Inl AbortError, w)
      else
        (let w1 = w\<lparr>calls := calls w @ [functionCalls]\<rparr>
         in case r of
              AbortFires \<Rightarrow> (Inl AbortError, w1)
            | CallResolves res \<Rightarrow> (Inr res, w1)
            | CallRejects err \<Rightarrow> (Inl err, w1)))"

definition execute ::
  "env \<Rightarrow> Invocation \<Rightarrow> bool \<Rightarrow> race \<Rightarrow> world \<Rightarrow> (JsError + ToolResult) \<times> world" where
  "execute e this aborted r w =
     (let functionCall = \<lparr>call_name = inv_serverToolName this, call_args = inv_params this\<rparr>;
          functionCalls = [functionCall]
      in case race_callTool functionCalls aborted r w of
           (Inl err, w1) \<Rightarrow> (Inl err, w1)
         | (Inr rawResponseParts, w1) \<Rightarrow>
             (if isMCPToolError rawResponseParts then
                (let errorMessage =
                       js ''MCP tool '' @ [0x27] @ inv_serverToolName this @ [0x27]
                       @ js '' reported tool error for function call: ''
                       @ safeJsonStringify_call e functionCall
                       @ js '' with response: ''
                       @ safeJsonStringify_parts e rawResponseParts
                 in (Inr \<lparr>llmContent = LlmString errorMessage,
                          returnDisplay =
                            DisplayString (js ''Error: MCP tool '' @ [0x27]
                                           @ inv_serverToolName this @ [0x27]
                                           @ js '' reported an error.''),
                          result_error =
                            Some \<lparr>error_message = errorMessage,
                                  error_type = MCP_TOOL_ERROR\<rparr>\<rparr>, w1))
              else
                (let transformedParts = transformMcpContentToParts rawResponseParts;
                     (display, w2) = getStringifiedResultForDisplay e rawResponseParts w1
                 in (Inr \<lparr>llmContent = LlmParts transformedParts,
                          returnDisplay = display,
                          result_error = None\<rparr>, w2))))"

section \<open>Tool factory\<close>

text \<open>
  A \<open>DiscoveredMCPTool\<close> object. The base class \<open>BaseDeclarativeTool\<close> (\<open>tools.js\<close>)
  is not among the sources: its constructor is taken to store its arguments
  under their names. \<open>tool_mcpTool\<close> identifies the external callable.
\<close>

record DiscoveredMCPTool =
  tool_mcpTool :: nat
  tool_serverName :: jsstring
  tool_serverToolName :: jsstring
  tool_name :: jsstring
  tool_displayName :: jsstring
  tool_description :: jsstring
  tool_parameterSchema :: json
  tool_isOutputMarkdown :: bool
  tool_canUpdateOutput :: bool
  tool_trust :: "bool option"
  tool_cliConfig :: "Config option"
  tool_extensionName :: "jsstring option"
  tool_extensionId :: "jsstring option"

text \<open>The constructor; \<open>nameOverride ?? generateValidName(serverToolName)\<close>.\<close>

definition new_DiscoveredMCPTool ::
  "nat \<Rightarrow> jsstring \<Rightarrow> jsstring \<Rightarrow> jsstring \<Rightarrow> json \<Rightarrow> bool option \<Rightarrow> jsstring option
   \<Rightarrow> Config option \<Rightarrow> jsstring option \<Rightarrow> jsstring option \<Rightarrow> DiscoveredMCPTool" where
  "new_DiscoveredMCPTool mcpTool serverName serverToolName description parameterSchema trust
     nameOverride cliConfig extensionName extensionId =
     \<lparr>tool_mcpTool = mcpTool,
      tool_serverName = serverName,
      tool_serverToolName = serverToolName,
      tool_name = (case nameOverride of
                     Some n \<Rightarrow> n
                   | None \<Rightarrow> generateValidName serverToolName),
      tool_displayName = serverToolName @ js '' ('' @ serverName @ js '' MCP Server)'',
      tool_description = description,
      tool_parameterSchema = parameterSchema,
      tool_isOutputMarkdown = True,
      tool_canUpdateOutput = False,
      tool_trust = trust,
      tool_cliConfig = cliConfig,
      tool_extensionName = extensionName,
      tool_extensionId = extensionId\<rparr>"

definition getFullyQualifiedPrefix :: "DiscoveredMCPTool \<Rightarrow> jsstring" where
  "getFullyQualifiedPrefix this = tool_serverName this @ js ''__''"

text \<open>
  Objects live in a store, a reference is an index into it, and \<open>new\<close> appends.
  \<open>asFullyQualifiedTool\<close> reads the object \<open>this\<close> and allocates the derived one;
  \<open>None\<close> stands for a dangling \<open>this\<close>, which no caller holds.
\<close>

type_synonym store = "DiscoveredMCPTool list"

definition alloc :: "DiscoveredMCPTool \<Rightarrow> store \<Rightarrow> nat \<times> store" where
  "alloc obj h = (length h, h @ [obj])"

definition asFullyQualifiedTool :: "nat \<Rightarrow> store \<Rightarrow> (nat \<times> store) option" where
  "asFullyQualifiedTool this h =
     (if this < length h then
        (let t = h ! this
         in Some (alloc (new_DiscoveredMCPTool
                           (tool_mcpTool t)
                           (tool_serverName t)
                           (tool_serverToolName t)
                           (tool_description t)
                           (tool_parameterSchema t)
                           (tool_trust t)
                           (Some (getFullyQualifiedPrefix t @ tool_serverToolName t))
                           (tool_cliConfig t)
                           (tool_extensionName t)
                           (tool_extensionId t)) h))
      else None)"

definition createInvocation :: "DiscoveredMCPTool \<Rightarrow> ToolParams \<Rightarrow> Invocation" where
  "createInvocation this params =
     \<lparr>inv_serverName = tool_serverName this,
      inv_serverToolName = tool_serverToolName this,
      inv_displayName = tool_displayName this,
      inv_trust = tool_trust this,
      inv_params = params,
      inv_cliConfig = tool_cliConfig this\<rparr>"


section \<open>The path resolution as the specification words it\<close>

text \<open>
  The candidates are tried one after the other: the explicit file path, then the
  URI without its \<open>file://\<close> prefix, then the base64 payload written to a temporary
  file. A candidate that fails the existence check is logged and gives way to the
  next one.
\<close>

definition spec_resolve_image ::
  "env \<Rightarrow> jsstring option \<Rightarrow> nat \<Rightarrow> McpMediaBlock \<Rightarrow> world \<Rightarrow> ImageEntry option \<times> world" where
  "spec_resolve_image e alt index block w =
     (if truthy (media_filePath block) \<and> template_value (media_filePath block) \<in> existing w
      then (Some \<lparr>image_filePath = template_value (media_filePath block),
                   image_mimeType = media_mimeType block, image_alt = alt\<rparr>, w)
      else
        (let w1 = (if truthy (media_filePath block)
                   then console_error (js ''Image file path does not exist: ''
                          @ template_value (media_filePath block)
                          @ js '', falling back to base64'') w
                   else w);
             fromUri = map_option strip_file_scheme (media_uri block)
         in if truthy fromUri \<and> template_value fromUri \<in> existing w1
            then (Some \<lparr>image_filePath = template_value fromUri,
                         image_mimeType = media_mimeType block, image_alt = alt\<rparr>, w1)
            else materialize e alt index block
                   (if truthy fromUri
                    then console_error (js ''Image file path does not exist: ''
                           @ template_value fromUri @ js '', falling back to base64'') w1
                    else w1)))"

section \<open>The image blocks selected\<close>

text \<open>The predicate of the filter that selects \<open>imageBlocks\<close>, on a block of any kind.\<close>

fun selected_image_block :: "McpContentBlock \<Rightarrow> bool" where
  "selected_image_block (MediaBlock m) =
     (media_type m = Image \<and>
      (media_filePath m \<noteq> None \<or> media_uri m \<noteq> None \<or> media_data m \<noteq> None))"
| "selected_image_block b = False"

section \<open>The path of the temporary file\<close>

text \<open>
  The path \<open>materialize\<close> writes to in the world \<open>w\<close>: the file name made of the
  next clock reading, the index and the extension, joined to the temporary
  directory.
\<close>

definition temp_path :: "env \<Rightarrow> world \<Rightarrow> nat \<Rightarrow> McpMediaBlock \<Rightarrow> jsstring" where
  "temp_path e w index block =
     path_join e (tmpdir e)
       (temp_filename (clock w (clock_reads w)) index (mime_extension (media_mimeType block)))"

section \<open>Values for the examples\<close>

text \<open>A POSIX environment, and a world with two image files and a frozen clock.\<close>

definition posix_env :: env where
  "posix_env =
     \<lparr>tmpdir = js ''/tmp'',
      path_join = (\<lambda>dir file. dir @ js ''/'' @ file),
      JSON_stringify = (\<lambda>parts. js ''[]''),
      safeJsonStringify_call = (\<lambda>c. js ''{name:'' @ call_name c @ js ''}''),
      safeJsonStringify_parts = (\<lambda>parts. js ''[...]'')\<rparr>"

definition some_world :: world where
  "some_world =
     \<lparr>existing = {js ''/a.png'', js ''/b.png''},
      unwritable = {},
      written = [],
      clock = (\<lambda>n. 1700000000000),
      clock_reads = 0,
      console = [],
      calls = []\<rparr>"

definition png_image ::
  "jsstring option \<Rightarrow> jsstring option \<Rightarrow> jsstring option \<Rightarrow> McpMediaBlock" where
  "png_image filePath uri payload =
     \<lparr>media_type = Image, media_mimeType = js ''image/png'',
      media_filePath = filePath, media_uri = uri, media_data = payload\<rparr>"

definition response_with :: "McpContentBlock list \<Rightarrow> RawPart list" where
  "response_with blocks =
     [\<lparr>functionResponse =
         Some \<lparr>fr_name = Some (js ''draw''),
               fr_response = Some \<lparr>response_content = Some blocks,
                                    response_error = None\<rparr>\<rparr>\<rparr>]"

definition some_invocation :: "jsstring \<Rightarrow> jsstring \<Rightarrow> Invocation" where
  "some_invocation server tool =
     \<lparr>inv_serverName = server, inv_serverToolName = tool, inv_displayName = tool,
      inv_trust = None, inv_params = [(js ''q'', JString (js ''x''))],
      inv_cliConfig = Some \<lparr>isTrustedFolder = False\<rparr>\<rparr>"

section \<open>Properties of the sanitizer\<close>

lemma length_replace_invalid: "length (replace_invalid s) = length s"
  by (simp add: replace_invalid_def)

lemma valid_underscore: "valid_name_char 0x5F"
  by (simp add: valid_name_char_def)

lemma replace_invalid_valid: "list_all valid_name_char (replace_invalid s)"
  by (induction s) (simp_all add: replace_invalid_def valid_underscore)

lemma replace_invalid_id: "list_all valid_name_char s \<Longrightarrow> replace_invalid s = s"
  by (induction s) (simp_all add: replace_invalid_def)

lemma slice_prefix: "0 \<le> n \<Longrightarrow> slice s 0 (Some n) = take (nat n) s"
  by (auto simp add: slice_def Let_def min_def)

lemma slice_suffix: "0 < n \<Longrightarrow> slice s (- n) None = drop (length s - nat n) s"
proof -
  assume n: "0 < n"
  have "nat (max (int (length s) + - n) 0) = length s - nat n"
    using n by (simp add: max_def) arith
  with n show ?thesis by (simp add: slice_def Let_def)
qed

lemma js_underscores: "js ''___'' = [0x5F, 0x5F, 0x5F]"
  by (simp add: js_def)

lemma generateValidName_long:
  "63 < length s \<Longrightarrow>
   generateValidName s =
     take 28 (replace_invalid s) @ js ''___'' @ drop (length s - 32) (replace_invalid s)"
  by (simp add: generateValidName_def Let_def length_replace_invalid slice_prefix slice_suffix)

lemma generateValidName_short: "length s \<le> 63 \<Longrightarrow> generateValidName s = replace_invalid s"
  by (simp add: generateValidName_def Let_def length_replace_invalid)

lemma generateValidName_chars: "list_all valid_name_char (generateValidName s)"
proof (cases "63 < length s")
  case True
  have "list_all valid_name_char (take 28 (replace_invalid s))"
    using replace_invalid_valid [of s] by (auto simp: list_all_iff dest: in_set_takeD)
  moreover have "list_all valid_name_char (drop (length s - 32) (replace_invalid s))"
    using replace_invalid_valid [of s] by (auto simp: list_all_iff dest: in_set_dropD)
  ultimately show ?thesis
    using True by (simp add: generateValidName_long js_underscores valid_underscore)
next
  case False
  then show ?thesis by (simp add: generateValidName_short replace_invalid_valid)
qed

lemma generateValidName_length_long: "63 < length s \<Longrightarrow> length (generateValidName s) = 63"
  by (simp add: generateValidName_long length_replace_invalid js_underscores)

lemma generateValidName_length: "length (generateValidName s) \<le> 63"
  by (cases "63 < length s")
     (simp_all add: generateValidName_length_long generateValidName_short length_replace_invalid)

lemma generateValidName_fixpoint:
  "list_all valid_name_char s \<Longrightarrow> length s \<le> 63 \<Longrightarrow> generateValidName s = s"
  by (simp add: generateValidName_short replace_invalid_id)

lemma generateValidName_nonempty: "s \<noteq> [] \<Longrightarrow> generateValidName s \<noteq> []"
proof (cases "63 < length s")
  case True
  then have "length (generateValidName s) = 63" by (rule generateValidName_length_long)
  then show ?thesis by auto
next
  case False
  assume "s \<noteq> []"
  with False show ?thesis by (simp add: generateValidName_short replace_invalid_def)
qed

text \<open>
  C4, as stated: every output matches \<open>^[A-Za-z0-9_.-]+$\<close>. The empty name is a
  string too, nothing guards against it, and its image is the empty string, which
  \<open>+\<close> does not match.
\<close>

theorem generateValidName_empty_no_match:
  "generateValidName [] = [] \<and> \<not> matches_valid_name (generateValidName [])"
  by (simp add: matches_valid_name_def generateValidName_def replace_invalid_def)

text \<open>
  C4, amended: for every input, every character of the output is in
  \<open>[A-Za-z0-9_.-]\<close> and the output has at most 63 characters; for a non-empty input
  the output is non-empty, so it matches \<open>^[A-Za-z0-9_.-]+$\<close>. The output is the
  input with each character outside the class replaced by an underscore when that
  has at most 63 characters; otherwise it is its first 28 characters, three
  underscores and its last 32 characters, 63 characters in all.
\<close>

theorem generateValidName_contract:
  "list_all valid_name_char (generateValidName s) \<and>
   length (generateValidName s) \<le> 63 \<and>
   (s \<noteq> [] \<longrightarrow> matches_valid_name (generateValidName s)) \<and>
   (length (replace_invalid s) \<le> 63 \<longrightarrow> generateValidName s = replace_invalid s) \<and>
   (63 < length (replace_invalid s) \<longrightarrow>
      generateValidName s =
        take 28 (replace_invalid s) @ js ''___''
        @ drop (length (replace_invalid s) - 32) (replace_invalid s) \<and>
      length (generateValidName s) = 63)"
  using generateValidName_nonempty [of s] generateValidName_chars [of s]
    generateValidName_length [of s]
  by (simp add: matches_valid_name_def length_replace_invalid generateValidName_short
      generateValidName_long generateValidName_length_long js_underscores)

theorem generateValidName_contract_witness:
  "js ''my tool'' \<noteq> [] \<and>
   length (replace_invalid (js ''my tool'')) \<le> 63 \<and>
   matches_valid_name (generateValidName (js ''my tool'')) \<and>
   generateValidName (js ''my tool'') = js ''my_tool'' \<and>
   63 < length (replace_invalid
      (js ''0123456789012345678901234567 abcdefghijklmnopqrstuvwxyzABCDEFGHIJKLMNOPQRSTUVWXYZ!0123456789'')) \<and>
   generateValidName
      (js ''0123456789012345678901234567 abcdefghijklmnopqrstuvwxyzABCDEFGHIJKLMNOPQRSTUVWXYZ!0123456789'')
     = js ''0123456789012345678901234567___FGHIJKLMNOPQRSTUVWXYZ_0123456789'' \<and>
   length (generateValidName
      (js ''0123456789012345678901234567 abcdefghijklmnopqrstuvwxyzABCDEFGHIJKLMNOPQRSTUVWXYZ!0123456789''))
     = 63"
proof -
  let ?short = "js ''my tool''"
  let ?long = "js ''0123456789012345678901234567 abcdefghijklmnopqrstuvwxyzABCDEFGHIJKLMNOPQRSTUVWXYZ!0123456789''"
  have s1: "?short \<noteq> []"
    by (simp add: js_def)
  have s2: "length (replace_invalid ?short) \<le> 63"
    by (simp add: js_def length_replace_invalid)
  have s3: "replace_invalid ?short = js ''my_tool''"
    by (simp add: js_def replace_invalid_def valid_name_char_def)
  have l1: "63 < length (replace_invalid ?long)"
    by (simp add: js_def length_replace_invalid)
  have l2: "take 28 (replace_invalid ?long) @ js ''___''
            @ drop (length (replace_invalid ?long) - 32) (replace_invalid ?long)
            = js ''0123456789012345678901234567___FGHIJKLMNOPQRSTUVWXYZ_0123456789''"
    by (simp add: js_def replace_invalid_def valid_name_char_def)
  from generateValidName_contract [of ?short] s1 s2
  have "matches_valid_name (generateValidName ?short) \<and>
        generateValidName ?short = replace_invalid ?short"
    by blast
  then have short: "matches_valid_name (generateValidName ?short) \<and>
                    generateValidName ?short = js ''my_tool''"
    unfolding s3 .
  from generateValidName_contract [of ?long] l1
  have "generateValidName ?long
          = take 28 (replace_invalid ?long) @ js ''___''
            @ drop (length (replace_invalid ?long) - 32) (replace_invalid ?long) \<and>
        length (generateValidName ?long) = 63"
    by blast
  then have long: "generateValidName ?long
                     = js ''0123456789012345678901234567___FGHIJKLMNOPQRSTUVWXYZ_0123456789'' \<and>
                   length (generateValidName ?long) = 63"
    unfolding l2 .
  from s1 s2 l1 short long show ?thesis by blast
qed

text \<open>
  C10: \<open>generateValidName\<close> is idempotent. Its output has valid characters only
  and at most 63 of them, and such a name is returned as it is.
\<close>

theorem generateValidName_idempotent:
  "generateValidName (generateValidName s) = generateValidName s"
  by (rule generateValidName_fixpoint [OF generateValidName_chars generateValidName_length])

section \<open>Properties of the normalizer: text\<close>

lemma mcp_content_first:
  "mcp_content (\<lparr>functionResponse = Some \<lparr>fr_name = nm, fr_response =
      Some \<lparr>response_content = c, response_error = er\<rparr>\<rparr>\<rparr> # rest) = c"
  by (simp add: mcp_content_def first_functionResponse_def)

lemma text_only_parts:
  "mcp_content raw = Some [TextBlock t] \<Longrightarrow> transformMcpContentToParts raw = [TextPart t]"
  by (simp add: transformMcpContentToParts_def transformTextBlock_def Let_def)

lemma text_only_display:
  "mcp_content raw = Some [TextBlock t] \<Longrightarrow>
   getStringifiedResultForDisplay e raw w = (DisplayString t, w)"
  by (simp add: getStringifiedResultForDisplay_def display_summary_def)

text \<open>
  C7: a text block is normalized to exactly one model part, which carries its
  text verbatim, and a response whose content is that block alone is displayed
  as that text, the world left as it was. So the block
  \<open>{type: "text", text: "hello"}\<close> becomes the one part \<open>{text: "hello"}\<close> and
  the display string \<open>hello\<close>.
\<close>

theorem text_block_verbatim:
  "transformTextBlock t = TextPart t \<and>
   transformMcpContentToParts
     (\<lparr>functionResponse = Some \<lparr>fr_name = nm, fr_response =
        Some \<lparr>response_content = Some [TextBlock t], response_error = er\<rparr>\<rparr>\<rparr> # rest)
     = [TextPart t] \<and>
   getStringifiedResultForDisplay e
     (\<lparr>functionResponse = Some \<lparr>fr_name = nm, fr_response =
        Some \<lparr>response_content = Some [TextBlock t], response_error = er\<rparr>\<rparr>\<rparr> # rest) w
     = (DisplayString t, w) \<and>
   transformTextBlock (js ''hello'') = TextPart (js ''hello'') \<and>
   transformMcpContentToParts
     (\<lparr>functionResponse = Some \<lparr>fr_name = nm, fr_response =
        Some \<lparr>response_content = Some [TextBlock (js ''hello'')], response_error = er\<rparr>\<rparr>\<rparr> # rest)
     = [TextPart (js ''hello'')] \<and>
   getStringifiedResultForDisplay e
     (\<lparr>functionResponse = Some \<lparr>fr_name = nm, fr_response =
        Some \<lparr>response_content = Some [TextBlock (js ''hello'')], response_error = er\<rparr>\<rparr>\<rparr> # rest) w
     = (DisplayString (js ''hello''), w)"
  by (simp add: transformTextBlock_def text_only_parts text_only_display mcp_content_first)

section \<open>Properties of the executor\<close>

text \<open>
  C2: when the signal is already aborted on entry, \<open>execute\<close> rejects with the
  error named \<open>AbortError\<close> and \<open>callTool\<close> is not invoked: the record of calls is
  what it was, whatever the external callable would have done.
\<close>

theorem execute_aborted_no_call:
  "execute e this True r w = (Inl AbortError, w) \<and>
   err_name AbortError = js ''AbortError'' \<and>
   calls (snd (execute e this True r w)) = calls w"
  by (simp add: execute_def race_callTool_def AbortError_def)

lemma startsWith_append: "startsWith (x @ ys) x"
  by (simp add: startsWith_def)

lemma js_includes_self: "js_includes (x @ post) x"
proof (cases "x @ post")
  case Nil
  then show ?thesis by simp
next
  case (Cons a list)
  have "startsWith (x @ post) x" by (rule startsWith_append)
  with Cons show ?thesis by simp
qed

lemma js_includes_append: "js_includes (pre @ x @ post) x"
  by (induction pre) (simp_all add: js_includes_self)

text \<open>
  C3: when the first element of the response carries
  \<open>functionResponse.response.error.isError\<close> equal to \<open>true\<close> or to the string
  \<open>"true"\<close>, \<open>execute\<close> resolves to a result with an error of type
  \<open>MCP_TOOL_ERROR\<close>. Its message includes the serialized function call (tool name
  and parameters) and the serialized response; the display string names the
  tool. Nothing is normalized: apart from the call made, the world is unchanged.
\<close>

theorem execute_tool_error:
  assumes "first_functionResponse raw = Some fr"
    and "fr_response fr = Some resp"
    and "response_error resp = Some er"
    and "isError er = Some (IsErrorBool True) \<or> isError er = Some (IsErrorString (js ''true''))"
  shows "\<exists>msg.
     execute e this False (CallResolves raw) w =
       (Inr \<lparr>llmContent = LlmString msg,
             returnDisplay = DisplayString (js ''Error: MCP tool '' @ [0x27]
                               @ inv_serverToolName this @ [0x27] @ js '' reported an error.''),
             result_error = Some \<lparr>error_message = msg, error_type = MCP_TOOL_ERROR\<rparr>\<rparr>,
        w\<lparr>calls := calls w @ [[\<lparr>call_name = inv_serverToolName this,
                                  call_args = inv_params this\<rparr>]]\<rparr>) \<and>
     js_includes msg (safeJsonStringify_call e
        \<lparr>call_name = inv_serverToolName this, call_args = inv_params this\<rparr>) \<and>
     js_includes msg (safeJsonStringify_parts e raw)"
proof -
  have err: "isMCPToolError raw"
    using assms by (simp add: isMCPToolError_def)
  let ?call = "\<lparr>call_name = inv_serverToolName this, call_args = inv_params this\<rparr>"
  let ?head = "js ''MCP tool '' @ [0x27] @ inv_serverToolName this @ [0x27]
               @ js '' reported tool error for function call: ''"
  let ?msg = "?head @ safeJsonStringify_call e ?call
              @ js '' with response: '' @ safeJsonStringify_parts e raw"
  have run: "execute e this False (CallResolves raw) w =
       (Inr \<lparr>llmContent = LlmString ?msg,
             returnDisplay = DisplayString (js ''Error: MCP tool '' @ [0x27]
                               @ inv_serverToolName this @ [0x27] @ js '' reported an error.''),
             result_error = Some \<lparr>error_message = ?msg, error_type = MCP_TOOL_ERROR\<rparr>\<rparr>,
        w\<lparr>calls := calls w @ [[?call]]\<rparr>)"
    using err by (simp add: execute_def race_callTool_def Let_def)
  have i1: "js_includes ?msg (safeJsonStringify_call e ?call)"
    using js_includes_append [of ?head "safeJsonStringify_call e ?call"
        "js '' with response: '' @ safeJsonStringify_parts e raw"]
    by simp
  have i2: "js_includes ?msg (safeJsonStringify_parts e raw)"
    using js_includes_append [of "?head @ safeJsonStringify_call e ?call
        @ js '' with response: ''" "safeJsonStringify_parts e raw" "[]"]
    by simp
  from run i1 i2 show ?thesis by blast
qed

theorem execute_tool_error_witness:
  "\<exists>msg.
     execute posix_env (some_invocation (js ''srv'') (js ''draw'')) False
       (CallResolves
          [\<lparr>functionResponse = Some \<lparr>fr_name = Some (js ''draw''), fr_response =
              Some \<lparr>response_content = Some [TextBlock (js ''boom'')],
                    response_error = Some \<lparr>isError = Some (IsErrorString (js ''true''))\<rparr>\<rparr>\<rparr>\<rparr>])
       some_world =
       (Inr \<lparr>llmContent = LlmString msg,
             returnDisplay = DisplayString (js ''Error: MCP tool '' @ [0x27]
                               @ js ''draw'' @ [0x27] @ js '' reported an error.''),
             result_error = Some \<lparr>error_message = msg, error_type = MCP_TOOL_ERROR\<rparr>\<rparr>,
        some_world\<lparr>calls := [[\<lparr>call_name = js ''draw'',
                                  call_args = [(js ''q'', JString (js ''x''))]\<rparr>]]\<rparr>) \<and>
     js_includes msg (js ''{name:draw}'') \<and>
     js_includes msg (js ''[...]'')"
  using execute_tool_error
    [of "[\<lparr>functionResponse = Some \<lparr>fr_name = Some (js ''draw''), fr_response =
              Some \<lparr>response_content = Some [TextBlock (js ''boom'')],
                    response_error = Some \<lparr>isError = Some (IsErrorString (js ''true''))\<rparr>\<rparr>\<rparr>\<rparr>]"
        "\<lparr>fr_name = Some (js ''draw''), fr_response =
              Some \<lparr>response_content = Some [TextBlock (js ''boom'')],
                    response_error = Some \<lparr>isError = Some (IsErrorString (js ''true''))\<rparr>\<rparr>\<rparr>"
        "\<lparr>response_content = Some [TextBlock (js ''boom'')],
                    response_error = Some \<lparr>isError = Some (IsErrorString (js ''true''))\<rparr>\<rparr>"
        "\<lparr>isError = Some (IsErrorString (js ''true''))\<rparr>"
        posix_env "some_invocation (js ''srv'') (js ''draw'')" some_world]
  by (simp add: first_functionResponse_def some_invocation_def posix_env_def some_world_def js_def)

section \<open>Properties of the tool factory\<close>

text \<open>
  C8: \<open>asFullyQualifiedTool\<close> returns a new object, at a reference other than
  \<open>this\<close>. Its name is the server name, two underscores and the raw tool name.
  Every object already in the store, the original among them, is what it was,
  and server name, raw tool name, description, parameter schema, trust flag,
  callable, configuration and extension data are those of the original.
\<close>

theorem asFullyQualifiedTool_frame:
  assumes "this < length h"
  shows "\<exists>r h'. asFullyQualifiedTool this h = Some (r, h') \<and>
     r \<noteq> this \<and> r < length h' \<and>
     (\<forall>q < length h. h' ! q = h ! q) \<and>
     tool_name (h' ! r) = tool_serverName (h ! this) @ js ''__'' @ tool_serverToolName (h ! this) \<and>
     tool_serverName (h' ! r) = tool_serverName (h ! this) \<and>
     tool_serverToolName (h' ! r) = tool_serverToolName (h ! this) \<and>
     tool_description (h' ! r) = tool_description (h ! this) \<and>
     tool_parameterSchema (h' ! r) = tool_parameterSchema (h ! this) \<and>
     tool_trust (h' ! r) = tool_trust (h ! this) \<and>
     tool_mcpTool (h' ! r) = tool_mcpTool (h ! this) \<and>
     tool_cliConfig (h' ! r) = tool_cliConfig (h ! this) \<and>
     tool_extensionName (h' ! r) = tool_extensionName (h ! this) \<and>
     tool_extensionId (h' ! r) = tool_extensionId (h ! this)"
  using assms
  by (simp add: asFullyQualifiedTool_def alloc_def Let_def new_DiscoveredMCPTool_def
      getFullyQualifiedPrefix_def nth_append)

theorem asFullyQualifiedTool_frame_witness:
  "(0::nat) < length [new_DiscoveredMCPTool 7 (js ''github'') (js ''search'') (js ''Search code'')
        JNull (Some True) None None None None] \<and>
   (\<exists>r h'. asFullyQualifiedTool 0
        [new_DiscoveredMCPTool 7 (js ''github'') (js ''search'') (js ''Search code'')
           JNull (Some True) None None None None] = Some (r, h') \<and>
      r \<noteq> 0 \<and>
      h' ! 0 = new_DiscoveredMCPTool 7 (js ''github'') (js ''search'') (js ''Search code'')
                 JNull (Some True) None None None None \<and>
      tool_name (h' ! 0) = js ''search'' \<and>
      tool_name (h' ! r) = js ''github__search'' \<and>
      tool_description (h' ! r) = js ''Search code'')"
  using asFullyQualifiedTool_frame
    [of 0 "[new_DiscoveredMCPTool 7 (js ''github'') (js ''search'') (js ''Search code'')
        JNull (Some True) None None None None]"]
  by (auto simp add: new_DiscoveredMCPTool_def generateValidName_def replace_invalid_def
      valid_name_char_def js_def)

section \<open>Properties of the gate\<close>

lemma onConfirm_mono: "al \<subseteq> onConfirm this outcome al"
  by (cases outcome) auto

text \<open>The allowlist only grows in a session.\<close>

lemma session_mono: "al \<subseteq> session al evs"
proof (induction evs arbitrary: al)
  case Nil
  show ?case by simp
next
  case (Cons ev evs)
  obtain i oc where ev: "ev = (i, oc)" by (cases ev)
  show ?case
  proof (cases "getConfirmationDetails i al")
    case None
    with ev Cons.IH [of al] show ?thesis by simp
  next
    case (Some d)
    have "al \<subseteq> onConfirm i oc al" by (rule onConfirm_mono)
    also have "\<dots> \<subseteq> session (onConfirm i oc al) evs" by (rule Cons.IH)
    finally show ?thesis using ev Some by simp
  qed
qed

lemma allowlisted_server: "inv_serverName t \<in> al \<Longrightarrow> getConfirmationDetails t al = None"
  by (simp add: getConfirmationDetails_def serverAllowListKey_def)

text \<open>
  C5: once \<open>ProceedAlwaysServer\<close> has been confirmed for an invocation \<open>s\<close> on a
  server, then after any further events \<open>evs\<close> of the session the decision for
  every invocation \<open>t\<close> on that server is that no confirmation is needed,
  whatever the folder trust and the trust flag of \<open>t\<close> are. \<open>ProceedOnce\<close> leaves
  the allowlist as it was.
\<close>

theorem always_server_allowlisted:
  "(inv_serverName t = inv_serverName s \<longrightarrow>
      getConfirmationDetails t (session (onConfirm s ProceedAlwaysServer al) evs) = None) \<and>
   onConfirm s ProceedOnce al = al"
proof -
  have "inv_serverName s \<in> onConfirm s ProceedAlwaysServer al"
    by (simp add: serverAllowListKey_def)
  then have "inv_serverName s \<in> session (onConfirm s ProceedAlwaysServer al) evs"
    using session_mono by blast
  then show ?thesis by (simp add: allowlisted_server)
qed

theorem always_server_allowlisted_witness:
  "inv_serverName (some_invocation (js ''github'') (js ''delete''))
     = inv_serverName (some_invocation (js ''github'') (js ''search'')) \<and>
   getConfirmationDetails (some_invocation (js ''github'') (js ''delete'')) {} \<noteq> None \<and>
   getConfirmationDetails (some_invocation (js ''github'') (js ''delete''))
     (session (onConfirm (some_invocation (js ''github'') (js ''search'')) ProceedAlwaysServer {})
        [(some_invocation (js ''files'') (js ''read''), ProceedOnce)]) = None \<and>
   onConfirm (some_invocation (js ''github'') (js ''search'')) ProceedOnce {} = {}"
  using always_server_allowlisted
    [of "some_invocation (js ''github'') (js ''delete'')"
        "some_invocation (js ''github'') (js ''search'')" "{}"
        "[(some_invocation (js ''files'') (js ''read''), ProceedOnce)]"]
  by (simp add: some_invocation_def getConfirmationDetails_def serverAllowListKey_def
      toolAllowListKey_def)

section \<open>Properties of the temporary file name\<close>













lemma mime_extension_png: "mime_extension (js ''image/png'') = js ''png''"
  by (simp add: mime_extension_def js_def)

lemma temp_filename_tick:
  "temp_filename 1700000000000 0 (js ''png'') = js ''gemini-cli-image-mcp-1700000000000-0.png''"
  by (simp add: temp_filename_def show_nat.simps digit_def js_def)

lemmas display_defs = getStringifiedResultForDisplay_def mcp_content_def first_functionResponse_def
  response_with_def png_image_def resolve_image_def candidate_path_def materialize_def
  Date_now_def writeFileSync_def alt_text_def posix_env_def some_world_def console_error_def
  display_summary_def strip_file_scheme_def startsWith_def Let_def



section \<open>Properties of the normalizer: images\<close>

lemma existing_console_error: "existing (console_error msg w) = existing w"
  by (simp add: console_error_def)

lemma materialize_written:
  "truthy (media_data b) \<Longrightarrow> temp_path e w i b \<notin> unwritable w \<Longrightarrow>
   materialize e alt i b w =
     (Some \<lparr>image_filePath = temp_path e w i b, image_mimeType = media_mimeType b,
            image_alt = alt\<rparr>,
      w\<lparr>clock_reads := Suc (clock_reads w),
        existing := insert (temp_path e w i b) (existing w),
        written := written w @ [(temp_path e w i b, template_value (media_data b))]\<rparr>)"
  by (simp add: materialize_def temp_path_def Date_now_def writeFileSync_def Let_def)

lemma materialize_no_data: "\<not> truthy (media_data b) \<Longrightarrow> fst (materialize e alt i b w) = None"
  by (simp add: materialize_def)

lemma materialize_existing:
  "materialize e alt i b w = (r, w1) \<Longrightarrow>
   existing w \<subseteq> existing w1 \<and> (\<forall>x. r = Some x \<longrightarrow> image_filePath x \<in> existing w1)"
  by (auto simp add: materialize_def Date_now_def writeFileSync_def Let_def console_error_def
      split: if_splits option.splits)

lemma candidate_filePath:
  "media_filePath b = Some p \<Longrightarrow> p \<noteq> [] \<Longrightarrow> candidate_path b = Some p"
  by (simp add: candidate_path_def)

lemma candidate_uri:
  "\<not> truthy (media_filePath b) \<Longrightarrow> media_uri b = Some u \<Longrightarrow> u \<noteq> [] \<Longrightarrow>
   candidate_path b = Some (strip_file_scheme u)"
  by (simp add: candidate_path_def)

lemma candidate_none:
  "\<not> truthy (media_filePath b) \<Longrightarrow> \<not> truthy (media_uri b) \<Longrightarrow> \<not> truthy (candidate_path b)"
  by (simp add: candidate_path_def)

lemma replace_first_prefix: "startsWith s p \<Longrightarrow> replace_first s p r = r @ drop (length p) s"
  by (cases s) (auto simp: startsWith_def)

lemma strip_file_scheme_prefix: "strip_file_scheme (js ''file://'' @ q) = q"
  by (simp add: strip_file_scheme_def replace_first_prefix startsWith_append)

lemma resolve_image_existing:
  "candidate_path b = Some p \<Longrightarrow> p \<noteq> [] \<Longrightarrow> p \<in> existing w \<Longrightarrow>
   resolve_image e alt i b w =
     (Some \<lparr>image_filePath = p, image_mimeType = media_mimeType b, image_alt = alt\<rparr>, w)"
  by (simp add: resolve_image_def Let_def)

lemma resolve_image_missing:
  "candidate_path b = Some p \<Longrightarrow> p \<noteq> [] \<Longrightarrow> p \<notin> existing w \<Longrightarrow>
   resolve_image e alt i b w =
     materialize e alt i b
       (console_error (js ''Image file path does not exist: '' @ p
                       @ js '', falling back to base64'') w)"
  by (simp add: resolve_image_def Let_def)

lemma resolve_image_no_candidate:
  "\<not> truthy (candidate_path b) \<Longrightarrow> resolve_image e alt i b w = materialize e alt i b w"
  by (simp add: resolve_image_def Let_def)

text \<open>The path of a resolved image exists afterwards, and no file is lost on the way.\<close>

lemma resolve_image_exists:
  "resolve_image e alt i b w = (r, w1) \<Longrightarrow>
   existing w \<subseteq> existing w1 \<and> (\<forall>x. r = Some x \<longrightarrow> image_filePath x \<in> existing w1)"
proof -
  assume run: "resolve_image e alt i b w = (r, w1)"
  show ?thesis
  proof (cases "truthy (candidate_path b)")
    case False
    with run have "materialize e alt i b w = (r, w1)" by (simp add: resolve_image_no_candidate)
    then show ?thesis by (rule materialize_existing)
  next
    case True
    then obtain p where p: "candidate_path b = Some p" "p \<noteq> []"
      by (cases "candidate_path b") auto
    show ?thesis
    proof (cases "p \<in> existing w")
      case True
      with p run show ?thesis by (auto simp: resolve_image_existing)
    next
      case False
      with p run have "materialize e alt i b
         (console_error (js ''Image file path does not exist: '' @ p
                       @ js '', falling back to base64'') w) = (r, w1)"
        by (simp add: resolve_image_missing)
      from materialize_existing [OF this] show ?thesis by (simp add: existing_console_error)
    qed
  qed
qed

lemma resolve_images_exist:
  "resolve_images e alt i bs w = (rs, w2) \<Longrightarrow>
   existing w \<subseteq> existing w2 \<and> (\<forall>x. Some x \<in> set rs \<longrightarrow> image_filePath x \<in> existing w2)"
proof (induction bs arbitrary: i w rs w2)
  case Nil
  then show ?case by simp
next
  case (Cons b bs)
  obtain r w1 where h: "resolve_image e alt i b w = (r, w1)"
    by (cases "resolve_image e alt i b w")
  obtain rs' w2' where t: "resolve_images e alt (Suc i) bs w1 = (rs', w2')"
    by (cases "resolve_images e alt (Suc i) bs w1")
  from Cons.prems h t have rs: "rs = r # rs'" and w2: "w2 = w2'" by simp_all
  from resolve_image_exists [OF h]
  have h1: "existing w \<subseteq> existing w1"
    and h2: "\<forall>x. r = Some x \<longrightarrow> image_filePath x \<in> existing w1"
    by simp_all
  from Cons.IH [OF t]
  have t1: "existing w1 \<subseteq> existing w2'"
    and t2: "\<forall>x. Some x \<in> set rs' \<longrightarrow> image_filePath x \<in> existing w2'"
    by simp_all
  from h1 h2 t1 t2 rs w2 show ?case by auto
qed

lemma set_non_null: "x \<in> set (non_null rs) \<longleftrightarrow> Some x \<in> set rs"
  by (induction rs rule: non_null.induct) auto

lemma imageBlocks_image:
  "m \<in> set (imageBlocks c) \<Longrightarrow> MediaBlock m \<in> set c \<and> media_type m = Image"
  by (induction c rule: imageBlocks.induct) (auto split: if_splits)

lemma imageBlocks_none:
  "\<forall>m. MediaBlock m \<in> set c \<longrightarrow> media_type m \<noteq> Image \<Longrightarrow> imageBlocks c = []"
  by (induction c rule: imageBlocks.induct) auto

lemma display_malformed:
  "mcp_content raw = None \<Longrightarrow>
   getStringifiedResultForDisplay e raw w =
     (DisplayString (js ''```json'' @ newline @ JSON_stringify e raw @ newline @ js ''```''), w)"
  by (simp add: getStringifiedResultForDisplay_def)

lemma display_no_images:
  "mcp_content raw = Some c \<Longrightarrow> imageBlocks c = [] \<Longrightarrow>
   getStringifiedResultForDisplay e raw w = (DisplayString (display_summary c), w)"
  by (simp add: getStringifiedResultForDisplay_def)

lemma display_with_images:
  "mcp_content raw = Some c \<Longrightarrow> imageBlocks c \<noteq> [] \<Longrightarrow>
   resolve_images e (alt_text (textParts c)) 0 (imageBlocks c) w = (rs, w1) \<Longrightarrow>
   getStringifiedResultForDisplay e raw w =
     (if non_null rs \<noteq> [] then DisplayImages (non_null rs)
      else DisplayString (display_summary c), w1)"
  by (simp add: getStringifiedResultForDisplay_def Let_def)

text \<open>
  C6: the display payload is an image result only if the content is a list of
  blocks with an image block in it and at least one image block resolved a path:
  the images are then the resolved entries, there is at least one, and the path
  of each exists. When the content is malformed, or holds no image block, or
  every image block is dropped, the payload is a string.
\<close>

theorem display_images_only_if_resolved:
  "(\<forall>imgs. fst (getStringifiedResultForDisplay e raw w) = DisplayImages imgs \<longrightarrow>
      imgs \<noteq> [] \<and>
      (\<exists>c. mcp_content raw = Some c \<and>
           imgs = non_null (fst (resolve_images e (alt_text (textParts c)) 0 (imageBlocks c) w)) \<and>
           (\<exists>m. MediaBlock m \<in> set c \<and> media_type m = Image)) \<and>
      (\<forall>x \<in> set imgs.
          image_filePath x \<in> existing (snd (getStringifiedResultForDisplay e raw w)))) \<and>
   (mcp_content raw = None \<longrightarrow>
      (\<exists>s. fst (getStringifiedResultForDisplay e raw w) = DisplayString s)) \<and>
   (\<forall>c. mcp_content raw = Some c \<and> (\<forall>m. MediaBlock m \<in> set c \<longrightarrow> media_type m \<noteq> Image) \<longrightarrow>
      fst (getStringifiedResultForDisplay e raw w) = DisplayString (display_summary c)) \<and>
   (\<forall>c. mcp_content raw = Some c \<and>
        non_null (fst (resolve_images e (alt_text (textParts c)) 0 (imageBlocks c) w)) = [] \<longrightarrow>
      fst (getStringifiedResultForDisplay e raw w) = DisplayString (display_summary c))"
proof (cases "mcp_content raw")
  case None
  then show ?thesis by (simp add: display_malformed)
next
  case (Some c)
  show ?thesis
  proof (cases "imageBlocks c = []")
    case True
    with Some show ?thesis by (simp add: display_no_images)
  next
    case False
    obtain rs w1
      where run: "resolve_images e (alt_text (textParts c)) 0 (imageBlocks c) w = (rs, w1)"
      by (cases "resolve_images e (alt_text (textParts c)) 0 (imageBlocks c) w")
    note d = display_with_images [OF Some False run]
    from False obtain m where "m \<in> set (imageBlocks c)" by (cases "imageBlocks c") auto
    then have img: "\<exists>m. MediaBlock m \<in> set c \<and> media_type m = Image"
      using imageBlocks_image by blast
    have noimg: "\<not> (\<forall>m. MediaBlock m \<in> set c \<longrightarrow> media_type m \<noteq> Image)"
      using img by blast
    from resolve_images_exist [OF run]
    have ex: "\<forall>x \<in> set (non_null rs). image_filePath x \<in> existing w1"
      by (simp add: set_non_null)
    show ?thesis
      using Some run img noimg ex by (simp add: d)
  qed
qed

lemma display_one_existing:
  "fst (getStringifiedResultForDisplay posix_env
          (response_with [TextBlock (js ''done''),
                          MediaBlock (png_image (Some (js ''/a.png'')) None None)]) some_world)
     = DisplayImages [\<lparr>image_filePath = js ''/a.png'', image_mimeType = js ''image/png'',
                        image_alt = Some (js ''done'')\<rparr>]"
  by (simp add: display_defs) (simp add: js_def)

lemma display_all_dropped:
  "non_null (fst (resolve_images posix_env (alt_text (textParts
       [MediaBlock (png_image (Some (js ''/gone.png'')) None None)])) 0
       (imageBlocks [MediaBlock (png_image (Some (js ''/gone.png'')) None None)]) some_world)) = []"
  by (simp add: display_defs) (simp add: js_def)

theorem display_images_only_if_resolved_witness:
  "js ''/a.png'' \<in> existing (snd (getStringifiedResultForDisplay posix_env
          (response_with [TextBlock (js ''done''),
                          MediaBlock (png_image (Some (js ''/a.png'')) None None)]) some_world)) \<and>
   (\<exists>s. fst (getStringifiedResultForDisplay posix_env [] some_world) = DisplayString s) \<and>
   fst (getStringifiedResultForDisplay posix_env
          (response_with [TextBlock (js ''done'')]) some_world) = DisplayString (js ''done'') \<and>
   fst (getStringifiedResultForDisplay posix_env
          (response_with [MediaBlock (png_image (Some (js ''/gone.png'')) None None)]) some_world)
     = DisplayString (js ''[Image: image/png]'')"
proof -
  let ?two = "response_with [TextBlock (js ''done''),
                             MediaBlock (png_image (Some (js ''/a.png'')) None None)]"
  let ?text = "[TextBlock (js ''done'')]"
  let ?gone = "[MediaBlock (png_image (Some (js ''/gone.png'')) None None)]"
  note images = display_images_only_if_resolved
    [of posix_env ?two some_world, THEN conjunct1, rule_format, OF display_one_existing]
  note malformed = display_images_only_if_resolved
    [of posix_env "[]" some_world, THEN conjunct2, THEN conjunct1, rule_format]
  note no_image = display_images_only_if_resolved
    [of posix_env "response_with ?text" some_world,
     THEN conjunct2, THEN conjunct2, THEN conjunct1, rule_format, of ?text]
  note dropped = display_images_only_if_resolved
    [of posix_env "response_with ?gone" some_world,
     THEN conjunct2, THEN conjunct2, THEN conjunct2, rule_format, of ?gone]
  from images
  have "\<forall>x \<in> set [\<lparr>image_filePath = js ''/a.png'', image_mimeType = js ''image/png'',
                       image_alt = Some (js ''done'')\<rparr>].
          image_filePath x \<in> existing (snd (getStringifiedResultForDisplay posix_env ?two some_world))"
    by (rule conjunct2 [THEN conjunct2])
  then have one: "js ''/a.png'' \<in> existing (snd (getStringifiedResultForDisplay posix_env ?two some_world))"
    by simp
  have "mcp_content [] = None"
    by (simp add: mcp_content_def first_functionResponse_def)
  then have two: "\<exists>s. fst (getStringifiedResultForDisplay posix_env [] some_world) = DisplayString s"
    by (rule malformed)
  have c3: "mcp_content (response_with ?text) = Some ?text"
    by (simp add: mcp_content_def first_functionResponse_def response_with_def)
  have "fst (getStringifiedResultForDisplay posix_env (response_with ?text) some_world)
        = DisplayString (display_summary ?text)"
    by (rule no_image) (simp add: c3)
  then have three: "fst (getStringifiedResultForDisplay posix_env (response_with ?text) some_world)
        = DisplayString (js ''done'')"
    by (simp add: display_summary_def)
  have c4: "mcp_content (response_with ?gone) = Some ?gone"
    by (simp add: mcp_content_def first_functionResponse_def response_with_def)
  have "fst (getStringifiedResultForDisplay posix_env (response_with ?gone) some_world)
        = DisplayString (display_summary ?gone)"
    by (rule dropped) (rule conjI [OF c4 display_all_dropped])
  then have four: "fst (getStringifiedResultForDisplay posix_env (response_with ?gone) some_world)
        = DisplayString (js ''[Image: image/png]'')"
    by (simp add: display_summary_def png_image_def js_def)
  from one two three four show ?thesis by blast
qed

text \<open>Each block of the list is resolved once, with its own index, after the blocks before it.\<close>

lemma length_resolve_images: "length (fst (resolve_images e alt i bs w)) = length bs"
  by (induction bs arbitrary: i w) (simp_all add: split_def Let_def)

lemma resolve_images_nth:
  "k < length bs \<Longrightarrow>
   fst (resolve_images e alt i bs w) ! k =
     fst (resolve_image e alt (i + k) (bs ! k) (snd (resolve_images e alt i (take k bs) w)))"
proof (induction bs arbitrary: i w k)
  case Nil
  then show ?case by simp
next
  case (Cons b bs)
  show ?case
  proof (cases k)
    case 0
    then show ?thesis by (simp add: split_def Let_def)
  next
    case (Suc j)
    with Cons.prems have j: "j < length bs" by simp
    from Cons.IH [OF j, of "Suc i" "snd (resolve_image e alt i b w)"] Suc
    show ?thesis by (simp add: split_def Let_def)
  qed
qed

text \<open>The blocks selected are the image blocks with a file path, a URI or a payload, in order.\<close>

lemma imageBlocks_filter: "map MediaBlock (imageBlocks c) = filter selected_image_block c"
  by (induction c rule: imageBlocks.induct) simp_all

lemma materialize_unwritable:
  "truthy (media_data b) \<Longrightarrow> temp_path e w i b \<in> unwritable w \<Longrightarrow>
   materialize e alt i b w =
     (None, console_error (js ''Failed to write image temp file from MCP data'')
              (w\<lparr>clock_reads := Suc (clock_reads w)\<rparr>))"
  by (simp add: materialize_def temp_path_def Date_now_def writeFileSync_def Let_def)

lemma materialize_nothing:
  "\<not> truthy (media_data b) \<Longrightarrow>
   materialize e alt i b w =
     (None, console_error (js ''Image block '' @ show_nat i
                           @ js '' has no valid filePath, uri, or data field'') w)"
  by (simp add: materialize_def)

lemma candidate_stripped_empty:
  "\<not> truthy (media_filePath b) \<Longrightarrow> \<not> truthy (map_option strip_file_scheme (media_uri b)) \<Longrightarrow>
   \<not> truthy (candidate_path b)"
  by (simp add: candidate_path_def)

lemma strip_nonempty: "strip_file_scheme u \<noteq> [] \<Longrightarrow> u \<noteq> []"
  by (auto simp: strip_file_scheme_def split: if_splits)






lemma temp_filename_tick_1:
  "temp_filename 1700000000000 (Suc 0) (js ''png'') = js ''gemini-cli-image-mcp-1700000000000-1.png''"
  by (simp add: temp_filename_def show_nat.simps digit_def js_def)




lemma two_payloads_written:
  "written (snd (getStringifiedResultForDisplay posix_env
      (response_with [MediaBlock (png_image None None (Some (js ''AAAA''))),
                      MediaBlock (png_image None None (Some (js ''BBBB'')))]) some_world))
     = [(js ''/tmp/gemini-cli-image-mcp-1700000000000-0.png'', js ''AAAA''),
        (js ''/tmp/gemini-cli-image-mcp-1700000000000-1.png'', js ''BBBB'')]"
  by (simp add: display_defs mime_extension_png temp_filename_tick temp_filename_tick_1)
     (simp add: js_def)


text \<open>
  C1, as stated: the explicit file path, the URI and the base64 payload are tried
  in this order, each failure giving way to the next candidate. The code takes
  one path to check, the file path when the block has one and the URI only
  otherwise, and after a failed check goes to the base64 payload. A block with
  a file path that does not exist, a URI that does and no payload resolves to the
  URI by the words of the claim; the code drops it and displays the summary.
\<close>

theorem uri_skipped_after_missing_filePath:
  "fst (spec_resolve_image posix_env None 0
          (png_image (Some (js ''/gone.png'')) (Some (js ''file:///b.png'')) None) some_world)
     = Some \<lparr>image_filePath = js ''/b.png'', image_mimeType = js ''image/png'',
             image_alt = None\<rparr> \<and>
   fst (resolve_image posix_env None 0
          (png_image (Some (js ''/gone.png'')) (Some (js ''file:///b.png'')) None) some_world)
     = None \<and>
   fst (getStringifiedResultForDisplay posix_env
          (response_with
             [MediaBlock (png_image (Some (js ''/gone.png'')) (Some (js ''file:///b.png'')) None)])
          some_world)
     = DisplayString (js ''[Image: image/png]'')"
  by (simp add: spec_resolve_image_def display_defs) (simp add: js_def startsWith_def)

lemma strip_file_scheme_other: "\<not> startsWith u (js ''file://'') \<Longrightarrow> strip_file_scheme u = u"
  by (simp add: strip_file_scheme_def)

text \<open>
  C1, amended: for every content list with at least one selected image block, the
  display payload holds the entries that \<open>resolve_images\<close> yields for the selected
  blocks, in order, or the summary string when none resolves. Every selected
  block is resolved, the block at position \<open>k\<close> with index \<open>k\<close> in the world the
  blocks before it leave, and a block that fails aborts nothing. For one block,
  the path to check is the explicit file path when it is a non-empty string, and
  otherwise the URI without a leading \<open>file://\<close>. If that path exists it is the
  image's path, whatever URI or payload the block also has. If it does not
  exist, the failure is logged and the base64 payload is tried: the URI is not
  tried after a file path that failed. With no file path and a URI that is
  absent, empty or \<open>file://\<close> alone, nothing is checked or logged and the payload
  is tried at once. The payload, when there is one, is written to a temporary
  file whose path becomes the image's path; a failed write is logged and drops
  the block, and so does a missing payload. In particular a block with the
  existing file path \<open>/a.png\<close> and the URI \<open>file:///b.png\<close> is displayed with the
  path \<open>/a.png\<close>.
\<close>

theorem image_path_priority:
  "(mcp_content raw = Some c \<and> imageBlocks c \<noteq> [] \<longrightarrow>
      getStringifiedResultForDisplay e raw w =
        (if non_null (fst (resolve_images e (alt_text (textParts c)) 0 (imageBlocks c) w)) \<noteq> []
         then DisplayImages
                (non_null (fst (resolve_images e (alt_text (textParts c)) 0 (imageBlocks c) w)))
         else DisplayString (display_summary c),
         snd (resolve_images e (alt_text (textParts c)) 0 (imageBlocks c) w))) \<and>
   map MediaBlock (imageBlocks c) = filter selected_image_block c \<and>
   length (fst (resolve_images e alt i bs w)) = length bs \<and>
   (k < length bs \<longrightarrow>
      fst (resolve_images e alt i bs w) ! k =
        fst (resolve_image e alt (i + k) (bs ! k) (snd (resolve_images e alt i (take k bs) w)))) \<and>
   (media_filePath b = Some p \<and> p \<noteq> [] \<and> p \<in> existing w \<longrightarrow>
      resolve_image e alt i b w =
        (Some \<lparr>image_filePath = p, image_mimeType = media_mimeType b, image_alt = alt\<rparr>, w)) \<and>
   (\<not> truthy (media_filePath b) \<and> media_uri b = Some u \<and> strip_file_scheme u \<noteq> [] \<and>
    strip_file_scheme u \<in> existing w \<longrightarrow>
      resolve_image e alt i b w =
        (Some \<lparr>image_filePath = strip_file_scheme u, image_mimeType = media_mimeType b,
               image_alt = alt\<rparr>, w)) \<and>
   strip_file_scheme (js ''file://'' @ q) = q \<and>
   (\<not> startsWith u (js ''file://'') \<longrightarrow> strip_file_scheme u = u) \<and>
   (media_filePath b = Some p \<and> p \<noteq> [] \<and> p \<notin> existing w \<longrightarrow>
      resolve_image e alt i b w =
        materialize e alt i b
          (console_error (js ''Image file path does not exist: '' @ p
                          @ js '', falling back to base64'') w)) \<and>
   (\<not> truthy (media_filePath b) \<and> media_uri b = Some u \<and> strip_file_scheme u \<noteq> [] \<and>
    strip_file_scheme u \<notin> existing w \<longrightarrow>
      resolve_image e alt i b w =
        materialize e alt i b
          (console_error (js ''Image file path does not exist: '' @ strip_file_scheme u
                          @ js '', falling back to base64'') w)) \<and>
   (\<not> truthy (media_filePath b) \<and> \<not> truthy (map_option strip_file_scheme (media_uri b)) \<longrightarrow>
      resolve_image e alt i b w = materialize e alt i b w) \<and>
   (truthy (media_data b) \<and> temp_path e w i b \<notin> unwritable w \<longrightarrow>
      materialize e alt i b w =
        (Some \<lparr>image_filePath = temp_path e w i b, image_mimeType = media_mimeType b,
               image_alt = alt\<rparr>,
         w\<lparr>clock_reads := Suc (clock_reads w),
           existing := insert (temp_path e w i b) (existing w),
           written := written w @ [(temp_path e w i b, template_value (media_data b))]\<rparr>)) \<and>
   (truthy (media_data b) \<and> temp_path e w i b \<in> unwritable w \<longrightarrow>
      materialize e alt i b w =
        (None, console_error (js ''Failed to write image temp file from MCP data'')
                 (w\<lparr>clock_reads := Suc (clock_reads w)\<rparr>))) \<and>
   (\<not> truthy (media_data b) \<longrightarrow>
      materialize e alt i b w =
        (None, console_error (js ''Image block '' @ show_nat i
                              @ js '' has no valid filePath, uri, or data field'') w)) \<and>
   (mcp_content raw =
      Some [MediaBlock \<lparr>media_type = Image, media_mimeType = mt,
                        media_filePath = Some (js ''/a.png''),
                        media_uri = Some (js ''file:///b.png''), media_data = d\<rparr>] \<and>
    js ''/a.png'' \<in> existing w \<longrightarrow>
      getStringifiedResultForDisplay e raw w =
        (DisplayImages [\<lparr>image_filePath = js ''/a.png'', image_mimeType = mt,
                          image_alt = None\<rparr>], w))"
proof -
  have a_png: "js ''/a.png'' \<noteq> []"
    by (simp add: js_def)
  have d1: "mcp_content raw = Some c \<and> imageBlocks c \<noteq> [] \<longrightarrow>
      getStringifiedResultForDisplay e raw w =
        (if non_null (fst (resolve_images e (alt_text (textParts c)) 0 (imageBlocks c) w)) \<noteq> []
         then DisplayImages
                (non_null (fst (resolve_images e (alt_text (textParts c)) 0 (imageBlocks c) w)))
         else DisplayString (display_summary c),
         snd (resolve_images e (alt_text (textParts c)) 0 (imageBlocks c) w))"
    by (simp add: getStringifiedResultForDisplay_def Let_def split_def)
  have d2: "map MediaBlock (imageBlocks c) = filter selected_image_block c"
    by (rule imageBlocks_filter)
  have d3: "length (fst (resolve_images e alt i bs w)) = length bs"
    by (rule length_resolve_images)
  have d4: "k < length bs \<longrightarrow>
      fst (resolve_images e alt i bs w) ! k =
        fst (resolve_image e alt (i + k) (bs ! k) (snd (resolve_images e alt i (take k bs) w)))"
    using resolve_images_nth [of k bs e alt i w] by blast
  have c1: "media_filePath b = Some p \<and> p \<noteq> [] \<and> p \<in> existing w \<longrightarrow>
      resolve_image e alt i b w =
        (Some \<lparr>image_filePath = p, image_mimeType = media_mimeType b, image_alt = alt\<rparr>, w)"
    by (simp add: resolve_image_existing candidate_filePath)
  have c2: "\<not> truthy (media_filePath b) \<and> media_uri b = Some u \<and> strip_file_scheme u \<noteq> [] \<and>
    strip_file_scheme u \<in> existing w \<longrightarrow>
      resolve_image e alt i b w =
        (Some \<lparr>image_filePath = strip_file_scheme u, image_mimeType = media_mimeType b,
               image_alt = alt\<rparr>, w)"
    using strip_nonempty [of u] by (auto simp add: resolve_image_existing candidate_uri)
  have c3: "strip_file_scheme (js ''file://'' @ q) = q"
    by (rule strip_file_scheme_prefix)
  have c3': "\<not> startsWith u (js ''file://'') \<longrightarrow> strip_file_scheme u = u"
    by (simp add: strip_file_scheme_other)
  have c4: "media_filePath b = Some p \<and> p \<noteq> [] \<and> p \<notin> existing w \<longrightarrow>
      resolve_image e alt i b w =
        materialize e alt i b
          (console_error (js ''Image file path does not exist: '' @ p
                          @ js '', falling back to base64'') w)"
    by (simp add: resolve_image_missing candidate_filePath)
  have c5: "\<not> truthy (media_filePath b) \<and> media_uri b = Some u \<and> strip_file_scheme u \<noteq> [] \<and>
    strip_file_scheme u \<notin> existing w \<longrightarrow>
      resolve_image e alt i b w =
        materialize e alt i b
          (console_error (js ''Image file path does not exist: '' @ strip_file_scheme u
                          @ js '', falling back to base64'') w)"
    using strip_nonempty [of u] by (auto simp add: resolve_image_missing candidate_uri)
  have c6: "\<not> truthy (media_filePath b) \<and> \<not> truthy (map_option strip_file_scheme (media_uri b)) \<longrightarrow>
      resolve_image e alt i b w = materialize e alt i b w"
    by (simp add: resolve_image_no_candidate candidate_stripped_empty)
  have c7: "truthy (media_data b) \<and> temp_path e w i b \<notin> unwritable w \<longrightarrow>
      materialize e alt i b w =
        (Some \<lparr>image_filePath = temp_path e w i b, image_mimeType = media_mimeType b,
               image_alt = alt\<rparr>,
         w\<lparr>clock_reads := Suc (clock_reads w),
           existing := insert (temp_path e w i b) (existing w),
           written := written w @ [(temp_path e w i b, template_value (media_data b))]\<rparr>)"
    using materialize_written [of b e w i alt] by blast
  have c8: "truthy (media_data b) \<and> temp_path e w i b \<in> unwritable w \<longrightarrow>
      materialize e alt i b w =
        (None, console_error (js ''Failed to write image temp file from MCP data'')
                 (w\<lparr>clock_reads := Suc (clock_reads w)\<rparr>))"
    using materialize_unwritable [of b e w i alt] by blast
  have c9: "\<not> truthy (media_data b) \<longrightarrow>
      materialize e alt i b w =
        (None, console_error (js ''Image block '' @ show_nat i
                              @ js '' has no valid filePath, uri, or data field'') w)"
    using materialize_nothing [of b e alt i w] by blast
  have c10: "mcp_content raw =
      Some [MediaBlock \<lparr>media_type = Image, media_mimeType = mt,
                        media_filePath = Some (js ''/a.png''),
                        media_uri = Some (js ''file:///b.png''), media_data = d\<rparr>] \<and>
    js ''/a.png'' \<in> existing w \<longrightarrow>
      getStringifiedResultForDisplay e raw w =
        (DisplayImages [\<lparr>image_filePath = js ''/a.png'', image_mimeType = mt,
                          image_alt = None\<rparr>], w)"
    using a_png
    by (simp add: getStringifiedResultForDisplay_def alt_text_def resolve_image_existing
        candidate_filePath Let_def)
  show ?thesis
    by (intro conjI)
       (fact d1, fact d2, fact d3, fact d4, fact c1, fact c2, fact c3, fact c3', fact c4,
        fact c5, fact c6, fact c7, fact c8, fact c9, fact c10)
qed

lemma file_scheme_only:
  "\<not> truthy (map_option strip_file_scheme (Some (js ''file://'')))"
  by (simp add: strip_file_scheme_def startsWith_def js_def)

theorem image_path_priority_witness:
  "getStringifiedResultForDisplay posix_env
     (response_with
        [MediaBlock (png_image (Some (js ''/gone.png'')) (Some (js ''file:///b.png'')) None),
         TextBlock (js ''done''),
         MediaBlock (png_image (Some (js ''/a.png'')) (Some (js ''file:///b.png'')) None),
         MediaBlock (png_image None (Some (js ''file:///b.png'')) None)])
     some_world
     = (DisplayImages
          [\<lparr>image_filePath = js ''/a.png'', image_mimeType = js ''image/png'',
            image_alt = Some (js ''done'')\<rparr>,
           \<lparr>image_filePath = js ''/b.png'', image_mimeType = js ''image/png'',
            image_alt = Some (js ''done'')\<rparr>],
        console_error (js ''Image block 0 has no valid filePath, uri, or data field'')
          (console_error (js ''Image file path does not exist: /gone.png, falling back to base64'')
             some_world)) \<and>
   fst (resolve_images posix_env None 0
          [png_image (Some (js ''/gone.png'')) (Some (js ''file:///b.png'')) None,
           png_image (Some (js ''/a.png'')) (Some (js ''file:///b.png'')) None,
           png_image None (Some (js ''file:///b.png'')) None] some_world) ! 2
     = Some \<lparr>image_filePath = js ''/b.png'', image_mimeType = js ''image/png'',
             image_alt = None\<rparr> \<and>
   resolve_image posix_env None 0
     (png_image (Some (js ''/a.png'')) (Some (js ''file:///b.png'')) None) some_world
     = (Some \<lparr>image_filePath = js ''/a.png'', image_mimeType = js ''image/png'',
              image_alt = None\<rparr>, some_world) \<and>
   resolve_image posix_env None 0
     (png_image None (Some (js ''file:///b.png'')) None) some_world
     = (Some \<lparr>image_filePath = js ''/b.png'', image_mimeType = js ''image/png'',
              image_alt = None\<rparr>, some_world) \<and>
   fst (resolve_image posix_env None 0
          (png_image (Some (js ''/gone.png'')) (Some (js ''file:///b.png'')) (Some (js ''AAAA'')))
          some_world)
     = Some \<lparr>image_filePath = js ''/tmp/gemini-cli-image-mcp-1700000000000-0.png'',
             image_mimeType = js ''image/png'', image_alt = None\<rparr> \<and>
   fst (resolve_image posix_env None 0
          (png_image None (Some (js ''file:///gone.png'')) (Some (js ''AAAA''))) some_world)
     = Some \<lparr>image_filePath = js ''/tmp/gemini-cli-image-mcp-1700000000000-0.png'',
             image_mimeType = js ''image/png'', image_alt = None\<rparr> \<and>
   resolve_image posix_env None 0
     (png_image None (Some (js ''file://'')) (Some (js ''AAAA''))) some_world
     = materialize posix_env None 0
         (png_image None (Some (js ''file://'')) (Some (js ''AAAA''))) some_world \<and>
   fst (resolve_image posix_env None 0
          (png_image None (Some (js ''file://'')) (Some (js ''AAAA''))) some_world)
     = Some \<lparr>image_filePath = js ''/tmp/gemini-cli-image-mcp-1700000000000-0.png'',
             image_mimeType = js ''image/png'', image_alt = None\<rparr> \<and>
   resolve_image posix_env None 0
     (png_image (Some (js ''/gone.png'')) (Some (js ''file:///b.png'')) None) some_world
     = (None,
        console_error (js ''Image block 0 has no valid filePath, uri, or data field'')
          (console_error (js ''Image file path does not exist: /gone.png, falling back to base64'')
             some_world)) \<and>
   getStringifiedResultForDisplay posix_env
     (response_with [MediaBlock (png_image (Some (js ''/a.png'')) (Some (js ''file:///b.png'')) None)])
     some_world
     = (DisplayImages [\<lparr>image_filePath = js ''/a.png'', image_mimeType = js ''image/png'',
                         image_alt = None\<rparr>], some_world)"
proof -
  let ?both = "png_image (Some (js ''/a.png'')) (Some (js ''file:///b.png'')) None"
  let ?uri = "png_image None (Some (js ''file:///b.png'')) None"
  let ?drop = "png_image (Some (js ''/gone.png'')) (Some (js ''file:///b.png'')) None"
  let ?gone = "png_image (Some (js ''/gone.png'')) (Some (js ''file:///b.png'')) (Some (js ''AAAA''))"
  let ?gone_uri = "png_image None (Some (js ''file:///gone.png'')) (Some (js ''AAAA''))"
  let ?scheme = "png_image None (Some (js ''file://'')) (Some (js ''AAAA''))"
  let ?tmp = "js ''/tmp/gemini-cli-image-mcp-1700000000000-0.png''"
  let ?list = "[MediaBlock ?drop, TextBlock (js ''done''), MediaBlock ?both, MediaBlock ?uri]"
  note T = image_path_priority
  note display = T [THEN conjunct1, rule_format]
  note n1 = T [THEN conjunct2]
  note n2 = n1 [THEN conjunct2]
  note n3 = n2 [THEN conjunct2]
  note nth = n3 [THEN conjunct1, rule_format]
  note n4 = n3 [THEN conjunct2]
  note by_filePath = n4 [THEN conjunct1, rule_format]
  note n5 = n4 [THEN conjunct2]
  note by_uri = n5 [THEN conjunct1, rule_format]
  note n6 = n5 [THEN conjunct2]
  note strip = n6 [THEN conjunct1]
  note n7 = n6 [THEN conjunct2]
  note n8 = n7 [THEN conjunct2]
  note filePath_gone = n8 [THEN conjunct1, rule_format]
  note n9 = n8 [THEN conjunct2]
  note uri_gone = n9 [THEN conjunct1, rule_format]
  note n10 = n9 [THEN conjunct2]
  note no_path = n10 [THEN conjunct1, rule_format]
  note n11 = n10 [THEN conjunct2]
  note wr = n11 [THEN conjunct1, rule_format]
  note n12 = n11 [THEN conjunct2]
  note n13 = n12 [THEN conjunct2]
  note no_data = n13 [THEN conjunct1, rule_format]
  note example = n13 [THEN conjunct2, rule_format]
  have strip_b: "strip_file_scheme (js ''file:///b.png'') = js ''/b.png''"
    using strip [of "js ''/b.png''"] by (simp add: js_def)
  have strip_gone: "strip_file_scheme (js ''file:///gone.png'') = js ''/gone.png''"
    using strip [of "js ''/gone.png''"] by (simp add: js_def)
  have tmp: "temp_path posix_env (console_error msg some_world) 0 (png_image f u' (Some (js ''AAAA'')))
               = ?tmp" for msg f u'
    by (simp add: temp_path_def posix_env_def console_error_def some_world_def png_image_def
        mime_extension_png temp_filename_tick) (simp add: js_def)
  have tmp0: "temp_path posix_env some_world 0 (png_image f u' (Some (js ''AAAA''))) = ?tmp"
    for f u'
    by (simp add: temp_path_def posix_env_def some_world_def png_image_def
        mime_extension_png temp_filename_tick) (simp add: js_def)
  have h1: "media_filePath ?both = Some (js ''/a.png'') \<and> js ''/a.png'' \<noteq> [] \<and>
            js ''/a.png'' \<in> existing some_world"
    by (simp add: png_image_def some_world_def js_def)
  from by_filePath [OF h1, of posix_env None 0]
  have r1: "resolve_image posix_env None 0 ?both some_world
     = (Some \<lparr>image_filePath = js ''/a.png'', image_mimeType = js ''image/png'',
              image_alt = None\<rparr>, some_world)"
    by (simp add: png_image_def)
  have h2: "\<not> truthy (media_filePath ?uri) \<and> media_uri ?uri = Some (js ''file:///b.png'') \<and>
            strip_file_scheme (js ''file:///b.png'') \<noteq> [] \<and>
            strip_file_scheme (js ''file:///b.png'') \<in> existing some_world"
    unfolding strip_b by (simp add: png_image_def some_world_def js_def)
  from by_uri [OF h2, of posix_env None 0]
  have r2: "resolve_image posix_env None 0 ?uri some_world
     = (Some \<lparr>image_filePath = js ''/b.png'', image_mimeType = js ''image/png'',
              image_alt = None\<rparr>, some_world)"
    by (simp add: png_image_def strip_b)
  have h3: "media_filePath ?gone = Some (js ''/gone.png'') \<and> js ''/gone.png'' \<noteq> [] \<and>
            js ''/gone.png'' \<notin> existing some_world"
    by (simp add: png_image_def some_world_def js_def)
  have h7: "truthy (media_data (png_image f u' (Some (js ''AAAA'')))) \<and>
            temp_path posix_env (console_error msg some_world) 0 (png_image f u' (Some (js ''AAAA'')))
              \<notin> unwritable (console_error msg some_world)" for msg f u'
    by (simp add: png_image_def console_error_def some_world_def js_def)
  from wr [OF h7, of None] filePath_gone [OF h3, of posix_env None 0]
  have r3: "fst (resolve_image posix_env None 0 ?gone some_world)
     = Some \<lparr>image_filePath = ?tmp, image_mimeType = js ''image/png'', image_alt = None\<rparr>"
    by (simp add: tmp) (simp add: png_image_def)
  have h5: "\<not> truthy (media_filePath ?gone_uri) \<and>
            media_uri ?gone_uri = Some (js ''file:///gone.png'') \<and>
            strip_file_scheme (js ''file:///gone.png'') \<noteq> [] \<and>
            strip_file_scheme (js ''file:///gone.png'') \<notin> existing some_world"
    unfolding strip_gone by (simp add: png_image_def some_world_def js_def)
  from wr [OF h7, of None] uri_gone [OF h5, of posix_env None 0]
  have r4: "fst (resolve_image posix_env None 0 ?gone_uri some_world)
     = Some \<lparr>image_filePath = ?tmp, image_mimeType = js ''image/png'', image_alt = None\<rparr>"
    by (simp add: tmp) (simp add: png_image_def)
  have h6: "\<not> truthy (media_filePath ?scheme) \<and>
            \<not> truthy (map_option strip_file_scheme (media_uri ?scheme))"
    using file_scheme_only by (simp add: png_image_def)
  note r5 = no_path [OF h6, of posix_env None 0 some_world]
  have h7': "truthy (media_data ?scheme) \<and>
             temp_path posix_env some_world 0 ?scheme \<notin> unwritable some_world"
    by (simp add: png_image_def some_world_def js_def)
  from wr [OF h7', of None] r5
  have r6: "fst (resolve_image posix_env None 0 ?scheme some_world)
     = Some \<lparr>image_filePath = ?tmp, image_mimeType = js ''image/png'', image_alt = None\<rparr>"
    by (simp add: tmp0) (simp add: png_image_def)
  have h8: "media_filePath ?drop = Some (js ''/gone.png'') \<and> js ''/gone.png'' \<noteq> [] \<and>
            js ''/gone.png'' \<notin> existing some_world"
    by (simp add: png_image_def some_world_def js_def)
  have h9: "\<not> truthy (media_data ?drop)"
    by (simp add: png_image_def)
  have msgs: "js ''Image file path does not exist: '' @ js ''/gone.png''
                @ js '', falling back to base64''
              = js ''Image file path does not exist: /gone.png, falling back to base64''"
    "js ''Image block '' @ show_nat 0 @ js '' has no valid filePath, uri, or data field''
       = js ''Image block 0 has no valid filePath, uri, or data field''"
    by (simp_all add: js_def show_nat.simps digit_def)
  from filePath_gone [OF h8, of posix_env None 0]
    no_data [OF h9, of posix_env None 0
      "console_error (js ''Image file path does not exist: '' @ js ''/gone.png''
                      @ js '', falling back to base64'') some_world"]
  have r7: "resolve_image posix_env None 0 ?drop some_world
     = (None,
        console_error (js ''Image block 0 has no valid filePath, uri, or data field'')
          (console_error (js ''Image file path does not exist: /gone.png, falling back to base64'')
             some_world))"
    by (simp only: msgs)
  have k: "(2::nat) < length [?drop, ?both, ?uri]" by simp
  have "fst (resolve_image posix_env None (0 + 2) ([?drop, ?both, ?uri] ! 2)
               (snd (resolve_images posix_env None 0 (take 2 [?drop, ?both, ?uri]) some_world)))
     = Some \<lparr>image_filePath = js ''/b.png'', image_mimeType = js ''image/png'',
             image_alt = None\<rparr>"
    by (simp add: display_defs js_def show_nat.simps digit_def)
  with nth [OF k, of posix_env None 0 some_world]
  have r8: "fst (resolve_images posix_env None 0 [?drop, ?both, ?uri] some_world) ! 2
     = Some \<lparr>image_filePath = js ''/b.png'', image_mimeType = js ''image/png'',
             image_alt = None\<rparr>"
    by (simp only:)
  have h10: "mcp_content (response_with ?list) = Some ?list \<and> imageBlocks ?list \<noteq> []"
    by (simp add: mcp_content_def first_functionResponse_def response_with_def png_image_def)
  from display [OF h10, of posix_env some_world]
  have r9: "getStringifiedResultForDisplay posix_env (response_with ?list) some_world
     = (DisplayImages
          [\<lparr>image_filePath = js ''/a.png'', image_mimeType = js ''image/png'',
            image_alt = Some (js ''done'')\<rparr>,
           \<lparr>image_filePath = js ''/b.png'', image_mimeType = js ''image/png'',
            image_alt = Some (js ''done'')\<rparr>],
        console_error (js ''Image block 0 has no valid filePath, uri, or data field'')
          (console_error (js ''Image file path does not exist: /gone.png, falling back to base64'')
             some_world))"
    by (simp add: display_defs js_def show_nat.simps digit_def)
  have h11: "mcp_content (response_with [MediaBlock ?both]) =
      Some [MediaBlock \<lparr>media_type = Image, media_mimeType = js ''image/png'',
                        media_filePath = Some (js ''/a.png''),
                        media_uri = Some (js ''file:///b.png''), media_data = None\<rparr>] \<and>
    js ''/a.png'' \<in> existing some_world"
    by (simp add: mcp_content_def first_functionResponse_def response_with_def png_image_def
        some_world_def)
  note r10 = example [OF h11, of posix_env]
  from r9 r8 r1 r2 r3 r4 r5 r6 r7 r10 show ?thesis by blast
qed

end
